theory Spec2Isabelle
  imports Complex_Main
begin

section \<open>Tensors\<close>

text \<open>
  A two-dimensional torch tensor is its shape together with its entries in row-major
  order. Entries are exact real or complex numbers: the development reasons about the
  arithmetic the code writes down, not about float32 rounding. Every tensor of one
  instance lives on one device, so the device is not modelled.
\<close>

record 'a tensor =
  rows :: nat
  cols :: nat
  elems :: "'a list"

definition shape :: "'a tensor \<Rightarrow> nat \<times> nat" where
  "shape t = (rows t, cols t)"

definition well_shaped :: "'a tensor \<Rightarrow> bool" where
  "well_shaped t \<longleftrightarrow> length (elems t) = rows t * cols t"

definition tabulate2 :: "nat \<Rightarrow> nat \<Rightarrow> (nat \<Rightarrow> nat \<Rightarrow> 'a) \<Rightarrow> 'a tensor" where
  "tabulate2 m n f =
     \<lparr>rows = m, cols = n, elems = map (\<lambda>k. f (k div n) (k mod n)) [0..<m * n]\<rparr>"

definition entry :: "'a tensor \<Rightarrow> nat \<Rightarrow> nat \<Rightarrow> 'a" where
  "entry t i j = elems t ! (i * cols t + j)"

definition tmap :: "('a \<Rightarrow> 'b) \<Rightarrow> 'a tensor \<Rightarrow> 'b tensor" where
  "tmap f t = \<lparr>rows = rows t, cols = cols t, elems = map f (elems t)\<rparr>"

text \<open>\<open>torch.zeros(m, n)\<close> and \<open>torch.eye(m, n)\<close>.\<close>

definition zeros :: "nat \<Rightarrow> nat \<Rightarrow> 'a::zero tensor" where
  "zeros m n = tabulate2 m n (\<lambda>i j. 0)"

definition eye :: "nat \<Rightarrow> nat \<Rightarrow> real tensor" where
  "eye m n = tabulate2 m n (\<lambda>i j. if i = j then 1 else 0)"

text \<open>Multiplication of a tensor by a scalar, \<open>a * t\<close>.\<close>

definition smul :: "complex \<Rightarrow> complex tensor \<Rightarrow> complex tensor" where
  "smul a t = tmap (\<lambda>x. a * x) t"

text \<open>
  The exceptions of the modelled code: an index out of range, a local variable read before
  it is bound, a torch operation on operands it rejects, and an exception raised inside the
  kernel generator, with its message.
\<close>

datatype error =
    IndexError
  | UnboundLocalError
  | RuntimeError
  | GeneratorError string

text \<open>
  Python and torch indexing: an index \<open>i\<close> into a dimension of size \<open>n\<close> is valid for
  \<open>-n \<le> i < n\<close>, a negative one counting from the end; anything else raises
  \<open>IndexError\<close>.
\<close>

definition py_index :: "nat \<Rightarrow> int \<Rightarrow> nat option" where
  "py_index n i =
     (if 0 \<le> i \<and> i < int n then Some (nat i)
      else if - int n \<le> i \<and> i < 0 then Some (nat (int n + i))
      else None)"

definition getitem2 :: "'a tensor \<Rightarrow> int \<Rightarrow> int \<Rightarrow> error + 'a" where
  "getitem2 t i j =
     (case py_index (rows t) i of
        None \<Rightarrow> Inl IndexError
      | Some i' \<Rightarrow>
          (case py_index (cols t) j of
             None \<Rightarrow> Inl IndexError
           | Some j' \<Rightarrow> Inr (entry t i' j')))"

definition setitem2 :: "'a tensor \<Rightarrow> int \<Rightarrow> int \<Rightarrow> 'a \<Rightarrow> error + 'a tensor" where
  "setitem2 t i j v =
     (case py_index (rows t) i of
        None \<Rightarrow> Inl IndexError
      | Some i' \<Rightarrow>
          (case py_index (cols t) j of
             None \<Rightarrow> Inl IndexError
           | Some j' \<Rightarrow> Inr (t\<lparr>elems := (elems t)[i' * cols t + j' := v]\<rparr>)))"

text \<open>
  Broadcasting of torch on two-dimensional operands: two sizes of a dimension are
  compatible when they are equal or one of them is 1; the operand of size 1 is repeated.
  An incompatible pair raises \<open>RuntimeError\<close>.
\<close>

definition bdim :: "nat \<Rightarrow> nat \<Rightarrow> nat option" where
  "bdim a b =
     (if a = b then Some a else if a = 1 then Some b else if b = 1 then Some a else None)"

definition bentry :: "'a tensor \<Rightarrow> nat \<Rightarrow> nat \<Rightarrow> 'a" where
  "bentry t i j = entry t (if rows t = 1 then 0 else i) (if cols t = 1 then 0 else j)"

definition tmul :: "complex tensor \<Rightarrow> complex tensor \<Rightarrow> error + complex tensor" where
  "tmul x y =
     (case bdim (rows x) (rows y) of
        None \<Rightarrow> Inl RuntimeError
      | Some m \<Rightarrow>
          (case bdim (cols x) (cols y) of
             None \<Rightarrow> Inl RuntimeError
           | Some n \<Rightarrow> Inr (tabulate2 m n (\<lambda>i j. bentry x i j * bentry y i j))))"

definition expand :: "'a tensor \<Rightarrow> nat \<Rightarrow> nat \<Rightarrow> 'a tensor" where
  "expand t m n = tabulate2 m n (\<lambda>i j. bentry t i j)"

text \<open>
  \<open>self.kernels[depth_id, channel_id] = H\<close>: the slice addressed by the two indices is
  overwritten by \<open>H\<close> broadcast to the slice's shape.
\<close>

definition store_kernel ::
  "complex tensor tensor \<Rightarrow> int \<Rightarrow> int \<Rightarrow> complex tensor \<Rightarrow> error + complex tensor tensor" where
  "store_kernel ks i j H =
     (case getitem2 ks i j of
        Inl e \<Rightarrow> Inl e
      | Inr slot \<Rightarrow>
          if (rows H = rows slot \<or> rows H = 1) \<and> (cols H = cols slot \<or> cols H = 1)
          then setitem2 ks i j (expand H (rows slot) (cols slot))
          else Inl RuntimeError)"

text \<open>
  \<open>torch.linspace(start, end, steps)\<close>: \<open>steps\<close> points from \<open>start\<close> to \<open>end\<close>, both
  included; a single point is \<open>start\<close>.
\<close>

definition linspace :: "real \<Rightarrow> real \<Rightarrow> nat \<Rightarrow> real list" where
  "linspace start end steps =
     (if steps = 1 then [start]
      else map (\<lambda>i. start + real i * ((end - start) / real (steps - 1))) [0..<steps])"

section \<open>The Fourier transforms of torch.fft\<close>

text \<open>
  \<open>fftshift\<close> rolls every dimension of size \<open>n\<close> by \<open>n div 2\<close>, \<open>ifftshift\<close> by
  \<open>- (n div 2)\<close>. \<open>fft2\<close> and \<open>ifft2\<close> are the two-dimensional discrete Fourier transform
  and its inverse (normalised by the number of points); both reject a dimension of size 0.
\<close>

definition fftshift :: "'a tensor \<Rightarrow> 'a tensor" where
  "fftshift x =
     tabulate2 (rows x) (cols x)
       (\<lambda>i j. entry x ((i + rows x - rows x div 2) mod rows x)
                      ((j + cols x - cols x div 2) mod cols x))"

definition ifftshift :: "'a tensor \<Rightarrow> 'a tensor" where
  "ifftshift x =
     tabulate2 (rows x) (cols x)
       (\<lambda>i j. entry x ((i + rows x div 2) mod rows x) ((j + cols x div 2) mod cols x))"

definition twiddle :: "nat \<Rightarrow> nat \<Rightarrow> nat \<Rightarrow> complex" where
  "twiddle n u i = cis (- (2 * pi * real (u * i) / real n))"

definition fft2 :: "complex tensor \<Rightarrow> error + complex tensor" where
  "fft2 x =
     (if rows x = 0 \<or> cols x = 0 then Inl RuntimeError
      else Inr (tabulate2 (rows x) (cols x)
        (\<lambda>u v. \<Sum>i<rows x. \<Sum>j<cols x.
           entry x i j * (twiddle (rows x) u i * twiddle (cols x) v j))))"

definition ifft2 :: "complex tensor \<Rightarrow> error + complex tensor" where
  "ifft2 x =
     (if rows x = 0 \<or> cols x = 0 then Inl RuntimeError
      else Inr (tabulate2 (rows x) (cols x)
        (\<lambda>i j. (\<Sum>u<rows x. \<Sum>v<cols x.
           entry x u v * (cnj (twiddle (rows x) u i) * cnj (twiddle (cols x) v j)))
           / of_nat (rows x * cols x))))"

section \<open>Helpers of odak.learn.tools\<close>

text \<open>
  Modelled from the spec: \<open>zero_pad\<close> of \<open>odak.learn.tools\<close> is not among the sources.
  The spec fixes the padding factor at 2 per axis and asks for symmetric zero padding:
  an \<open>M \<times> N\<close> array becomes the \<open>2M \<times> 2N\<close> array that holds it in rows
  \<open>M div 2 ..< M div 2 + M\<close> and columns \<open>N div 2 ..< N div 2 + N\<close> and zero elsewhere.
\<close>

definition zero_pad :: "'a::zero tensor \<Rightarrow> 'a tensor" where
  "zero_pad x =
     tabulate2 (2 * rows x) (2 * cols x)
       (\<lambda>i j. if rows x div 2 \<le> i \<and> i < rows x div 2 + rows x \<and>
                 cols x div 2 \<le> j \<and> j < cols x div 2 + cols x
               then entry x (i - rows x div 2) (j - cols x div 2) else 0)"

text \<open>
  Modelled from the spec: \<open>crop_center\<close> of \<open>odak.learn.tools\<close> is not among the sources.
  The spec asks for the centred region of the original, unpadded resolution: of an
  \<open>R \<times> C\<close> array the \<open>R div 2 \<times> C div 2\<close> block that starts at row \<open>R div 4\<close> and column
  \<open>C div 4\<close>.
\<close>

definition crop_center :: "'a tensor \<Rightarrow> 'a tensor" where
  "crop_center x =
     tabulate2 (rows x div 2) (cols x div 2)
       (\<lambda>i j. entry x (i + rows x div 4) (j + cols x div 4))"

text \<open>
  Modelled from the spec: \<open>circular_binary_mask\<close> of \<open>odak.learn.tools\<close> is not among the
  sources. The spec describes a circular binary mask centred in its buffer, whose default
  diameter is the larger of the padded dimensions; with the argument that \<open>set_aperture\<close>
  hands over, half of that, the third argument is the radius of the circle: entry \<open>(i, j)\<close>
  of the \<open>px \<times> py\<close> buffer is 1 when the centre of that pixel is closer than the radius to
  the centre of the buffer, and 0 otherwise. The comparison is written on doubled
  coordinates, in integers.
\<close>

definition circular_binary_mask :: "nat \<Rightarrow> nat \<Rightarrow> nat \<Rightarrow> real tensor" where
  "circular_binary_mask px py aperture_size =
     tabulate2 px py
       (\<lambda>i j. if (2 * int i + 1 - int px)\<^sup>2 + (2 * int j + 1 - int py)\<^sup>2
                    < (2 * int aperture_size)\<^sup>2
               then 1 else 0)"

section \<open>The propagator\<close>

text \<open>The arguments of the constructor.\<close>

record config =
  cfg_resolution :: "nat \<times> nat"
  cfg_wavelengths :: "real list"
  cfg_pixel_pitch :: real
  cfg_resolution_factor :: nat
  cfg_number_of_frames :: nat
  cfg_number_of_depth_layers :: nat
  cfg_volume_depth :: real
  cfg_image_location_offset :: real
  cfg_propagation_type :: string
  cfg_propagator_type :: string
  cfg_back_and_forth_distance :: real
  cfg_laser_channel_power :: "real tensor option"
  cfg_aperture :: "real tensor option"

text \<open>
  The attributes of an instance. The flags \<open>generated_kernels\<close> are a tensor of numbers as
  in the source (\<open>torch.zeros\<close>, later \<open>True\<close> stored as 1); \<open>kernels\<close>, of four dimensions
  in the source, is the \<open>depth \<times> channel\<close> table of its two-dimensional slices, and
  \<open>kernel_components\<close> the table of its pairs of slices.
\<close>

record propagator =
  pixel_pitch :: real
  wavelengths :: "real list"
  resolution :: "nat \<times> nat"
  resolution_factor :: nat
  number_of_frames :: nat
  number_of_depth_layers :: nat
  number_of_channels :: nat
  volume_depth :: real
  image_location_offset :: real
  propagation_type :: string
  propagator_type :: string
  zero_mode_distance :: real
  aperture :: "real tensor"
  distances :: "real list"
  generated_kernels :: "real tensor"
  kernels :: "complex tensor tensor"
  kernel_components :: "real tensor list tensor"
  channel_power :: "real tensor"
  phase_scale :: "real list"

definition init_distances :: "propagator \<Rightarrow> propagator" where
  "init_distances p =
     p\<lparr>distances :=
         map (\<lambda>x. x + image_location_offset p)
           (linspace (- volume_depth p / 2) (volume_depth p / 2) (number_of_depth_layers p))\<rparr>"

definition init_kernels :: "propagator \<Rightarrow> propagator" where
  "init_kernels p =
     p\<lparr>generated_kernels := zeros (number_of_depth_layers p) (number_of_channels p),
       kernels :=
         tabulate2 (number_of_depth_layers p) (number_of_channels p)
           (\<lambda>d c. zeros (fst (resolution p) * resolution_factor p * 2)
                         (snd (resolution p) * resolution_factor p * 2)),
       kernel_components :=
         tabulate2 (number_of_depth_layers p) (number_of_channels p)
           (\<lambda>d c. replicate 2
              (zeros (fst (resolution p) * resolution_factor p * 2)
                     (snd (resolution p) * resolution_factor p * 2)))\<rparr>"

definition init_channel_power :: "propagator \<Rightarrow> real tensor option \<Rightarrow> propagator" where
  "init_channel_power p channel_power' =
     (case channel_power' of
        None \<Rightarrow> p\<lparr>channel_power := eye (number_of_frames p) (number_of_channels p)\<rparr>
      | Some cp \<Rightarrow> p\<lparr>channel_power := cp\<rparr>)"

definition init_phase_scale :: "propagator \<Rightarrow> propagator" where
  "init_phase_scale p = p\<lparr>phase_scale := [1, 1, 1]\<rparr>"

definition set_aperture :: "propagator \<Rightarrow> real tensor option \<Rightarrow> nat option \<Rightarrow> propagator" where
  "set_aperture p aperture' aperture_size =
     (case aperture' of
        None \<Rightarrow>
          (let aperture_size' =
                 (case aperture_size of
                    None \<Rightarrow> max (fst (resolution p) * resolution_factor p)
                                 (snd (resolution p) * resolution_factor p)
                  | Some s \<Rightarrow> s)
           in p\<lparr>aperture :=
                  tmap (\<lambda>x. x * 1)
                    (circular_binary_mask
                       (fst (resolution p) * resolution_factor p * 2)
                       (snd (resolution p) * resolution_factor p * 2)
                       aperture_size')\<rparr>)
      | Some a \<Rightarrow> p\<lparr>aperture := tmap (\<lambda>x. x * 1) (zero_pad a)\<rparr>)"

text \<open>
  The constructor. The attributes that the \<open>init_\<close> methods and \<open>set_aperture\<close> assign
  start out empty; the constructor's own assignment of the raw \<open>aperture\<close> argument is
  overwritten by \<open>set_aperture\<close> before anything reads it.
\<close>

definition init :: "config \<Rightarrow> propagator" where
  "init cfg =
     (let p0 =
        \<lparr>pixel_pitch = cfg_pixel_pitch cfg,
         wavelengths = cfg_wavelengths cfg,
         resolution = cfg_resolution cfg,
         resolution_factor = cfg_resolution_factor cfg,
         number_of_frames = cfg_number_of_frames cfg,
         number_of_depth_layers = cfg_number_of_depth_layers cfg,
         number_of_channels = length (cfg_wavelengths cfg),
         volume_depth = cfg_volume_depth cfg,
         image_location_offset = cfg_image_location_offset cfg,
         propagation_type = cfg_propagation_type cfg,
         propagator_type = cfg_propagator_type cfg,
         zero_mode_distance = cfg_back_and_forth_distance cfg,
         aperture = \<lparr>rows = 0, cols = 0, elems = []\<rparr>,
         distances = [],
         generated_kernels = \<lparr>rows = 0, cols = 0, elems = []\<rparr>,
         kernels = \<lparr>rows = 0, cols = 0, elems = []\<rparr>,
         kernel_components = \<lparr>rows = 0, cols = 0, elems = []\<rparr>,
         channel_power = \<lparr>rows = 0, cols = 0, elems = []\<rparr>,
         phase_scale = []\<rparr>;
        p1 = init_distances p0;
        p2 = init_kernels p1;
        p3 = init_channel_power p2 (cfg_laser_channel_power cfg);
        p4 = init_phase_scale p3
      in set_aperture p4 (cfg_aperture cfg) None)"

definition get_laser_powers :: "propagator \<Rightarrow> real tensor" where
  "get_laser_powers p = channel_power p"

definition set_laser_powers :: "propagator \<Rightarrow> real tensor \<Rightarrow> propagator" where
  "set_laser_powers p laser_power = p\<lparr>channel_power := laser_power\<rparr>"

subsection \<open>propagate\<close>

text \<open>The locals of \<open>propagate\<close>, one definition each, in the order the source computes them.\<close>

definition field_padded :: "complex tensor \<Rightarrow> complex tensor" where
  "field_padded field = zero_pad field"

definition U1 :: "complex tensor \<Rightarrow> error + complex tensor" where
  "U1 field =
     (case fft2 (fftshift (field_padded field)) of
        Inl e \<Rightarrow> Inl e
      | Inr F \<Rightarrow> Inr (fftshift F))"

definition U2 :: "propagator \<Rightarrow> complex tensor \<Rightarrow> complex tensor \<Rightarrow> error + complex tensor" where
  "U2 p field H =
     (case U1 field of
        Inl e \<Rightarrow> Inl e
      | Inr u1 \<Rightarrow>
          (case tmul H (tmap complex_of_real (aperture p)) of
             Inl e \<Rightarrow> Inl e
           | Inr HA \<Rightarrow> tmul HA u1))"

definition result_padded ::
  "propagator \<Rightarrow> complex tensor \<Rightarrow> complex tensor \<Rightarrow> error + complex tensor" where
  "result_padded p field H =
     (case U2 p field H of
        Inl e \<Rightarrow> Inl e
      | Inr u2 \<Rightarrow>
          (case ifft2 (ifftshift u2) of
             Inl e \<Rightarrow> Inl e
           | Inr r \<Rightarrow> Inr (ifftshift r)))"

definition propagate ::
  "propagator \<Rightarrow> complex tensor \<Rightarrow> complex tensor \<Rightarrow> error + complex tensor" where
  "propagate p field H =
     (case result_padded p field H of
        Inl e \<Rightarrow> Inl e
      | Inr rp \<Rightarrow> Inr (crop_center rp))"

subsection \<open>The forward call\<close>

text \<open>
  The keyword arguments of one invocation of \<open>get_propagation_kernel\<close>. The function itself
  belongs to \<open>odak.learn.wave.classical\<close> and is a parameter of the model: any function from
  its arguments to a transfer function or to the message of the exception it raises.
\<close>

record kernel_request =
  arg_nu :: nat
  arg_nv :: nat
  arg_dx :: real
  arg_wavelength :: real
  arg_distance :: real
  arg_propagation_type :: string
  arg_scale :: nat

type_synonym generator = "kernel_request \<Rightarrow> string + complex tensor"

definition invoke :: "generator \<Rightarrow> kernel_request \<Rightarrow> error + complex tensor" where
  "invoke gen r = (case gen r of Inl msg \<Rightarrow> Inl (GeneratorError msg) | Inr H \<Rightarrow> Inr H)"

definition request :: "propagator \<Rightarrow> complex tensor \<Rightarrow> real \<Rightarrow> real \<Rightarrow> kernel_request" where
  "request p input_field wavelength distance =
     \<lparr>arg_nu = rows input_field * 2,
      arg_nv = cols input_field * 2,
      arg_dx = pixel_pitch p,
      arg_wavelength = wavelength,
      arg_distance = distance,
      arg_propagation_type = propagation_type p,
      arg_scale = resolution_factor p\<rparr>"

text \<open>
  The \<open>if\<close>/\<open>elif\<close> chain that computes \<open>H\<close> for a slot not generated yet. It returns the
  requests made to the generator, in order, and \<open>H\<close> or the error raised. With a
  \<open>propagator_type\<close> that matches neither branch \<open>H\<close> is never bound, and the statement that
  reads it next raises \<open>UnboundLocalError\<close>.
\<close>

definition generate ::
  "generator \<Rightarrow> propagator \<Rightarrow> complex tensor \<Rightarrow> int \<Rightarrow> real \<Rightarrow>
     kernel_request list \<times> (error + complex tensor)" where
  "generate gen p input_field channel_id distance =
     (if propagator_type p = ''forward'' then
        (case py_index (length (wavelengths p)) channel_id of
           None \<Rightarrow> ([], Inl IndexError)
         | Some c \<Rightarrow>
             (let r = request p input_field (wavelengths p ! c) distance
              in ([r], invoke gen r)))
      else if propagator_type p = ''back and forth'' then
        (case py_index (length (wavelengths p)) channel_id of
           None \<Rightarrow> ([], Inl IndexError)
         | Some c \<Rightarrow>
             (let r1 = request p input_field (wavelengths p ! c) (zero_mode_distance p)
              in case invoke gen r1 of
                   Inl e \<Rightarrow> ([r1], Inl e)
                 | Inr H_forward \<Rightarrow>
                     (let distance_back =
                            - (zero_mode_distance p + image_location_offset p - distance);
                          r2 = request p input_field (wavelengths p ! c) distance_back
                      in case invoke gen r2 of
                           Inl e \<Rightarrow> ([r1, r2], Inl e)
                         | Inr H_back \<Rightarrow> ([r1, r2], tmul H_forward H_back))))
      else ([], Inl UnboundLocalError))"

text \<open>
  \<open>__call__\<close>. The result is the list of requests made to the generator during the call,
  the instance as the call leaves it, and the output field or the error raised.
\<close>

definition call ::
  "generator \<Rightarrow> propagator \<Rightarrow> complex tensor \<Rightarrow> int \<Rightarrow> int \<Rightarrow>
     kernel_request list \<times> propagator \<times> (error + complex tensor)" where
  "call gen p input_field channel_id depth_id =
     (case py_index (length (distances p)) depth_id of
        None \<Rightarrow> ([], p, Inl IndexError)
      | Some d \<Rightarrow>
          (let distance = distances p ! d
           in case getitem2 (generated_kernels p) depth_id channel_id of
                Inl e \<Rightarrow> ([], p, Inl e)
              | Inr flag \<Rightarrow>
                  if flag = 0 then
                    (case generate gen p input_field channel_id distance of
                       (reqs, Inl e) \<Rightarrow> (reqs, p, Inl e)
                     | (reqs, Inr H) \<Rightarrow>
                         (case store_kernel (kernels p) depth_id channel_id H of
                            Inl e \<Rightarrow> (reqs, p, Inl e)
                          | Inr ks \<Rightarrow>
                              (case setitem2 (generated_kernels p) depth_id channel_id 1 of
                                 Inl e \<Rightarrow> (reqs, p\<lparr>kernels := ks\<rparr>, Inl e)
                               | Inr gk \<Rightarrow>
                                   (let p' = p\<lparr>kernels := ks, generated_kernels := gk\<rparr>
                                    in (reqs, p', propagate p' input_field H)))))
                  else
                    (case getitem2 (kernels p) depth_id channel_id of
                       Inl e \<Rightarrow> ([], p, Inl e)
                     | Inr H \<Rightarrow> ([], p, propagate p input_field H))))"

subsection \<open>Sequences of operations\<close>

text \<open>
  What a client can do with a constructed instance. \<open>get_laser_powers\<close> and \<open>get_kernels\<close>
  only read attributes and \<open>propagate\<close> reads the aperture; none of the three assigns one.
  The \<open>init_\<close> methods are the steps of the constructor, documented as internal, and are
  not among the operations.
\<close>

datatype operation =
    Set_aperture "real tensor option" "nat option"
  | Set_laser_powers "real tensor"
  | Get_laser_powers
  | Get_kernels
  | Propagate "complex tensor" "complex tensor"
  | Call "complex tensor" int int

fun step :: "generator \<Rightarrow> propagator \<Rightarrow> operation \<Rightarrow> propagator" where
  "step gen p (Set_aperture a s) = set_aperture p a s"
| "step gen p (Set_laser_powers lp) = set_laser_powers p lp"
| "step gen p Get_laser_powers = p"
| "step gen p Get_kernels = p"
| "step gen p (Propagate field H) = p"
| "step gen p (Call input_field channel_id depth_id) =
     fst (snd (call gen p input_field channel_id depth_id))"

fun run :: "generator \<Rightarrow> propagator \<Rightarrow> operation list \<Rightarrow> propagator" where
  "run gen p [] = p"
| "run gen p (x # xs) = run gen (step gen p x) xs"

subsection \<open>Cache slots and generator invocations\<close>

text \<open>
  The shape of one slice of \<open>kernels\<close>, and what the constructor establishes about the
  sizes of the attributes.
\<close>

definition slot_shape :: "propagator \<Rightarrow> nat \<times> nat" where
  "slot_shape p =
     (fst (resolution p) * resolution_factor p * 2, snd (resolution p) * resolution_factor p * 2)"

definition consistent :: "propagator \<Rightarrow> bool" where
  "consistent p \<longleftrightarrow>
     length (distances p) = number_of_depth_layers p \<and>
     length (wavelengths p) = number_of_channels p \<and>
     shape (generated_kernels p) = (number_of_depth_layers p, number_of_channels p) \<and>
     well_shaped (generated_kernels p) \<and>
     shape (kernels p) = (number_of_depth_layers p, number_of_channels p) \<and>
     well_shaped (kernels p) \<and>
     (\<forall>k \<in> set (elems (kernels p)). shape k = slot_shape p \<and> well_shaped k)"

text \<open>
  The slot of the cache that a pair of indices addresses, and whether its flag is set.
\<close>

definition slot_of :: "propagator \<Rightarrow> int \<Rightarrow> int \<Rightarrow> (nat \<times> nat) option" where
  "slot_of p channel_id depth_id =
     (case py_index (number_of_depth_layers p) depth_id of
        None \<Rightarrow> None
      | Some d \<Rightarrow>
          (case py_index (number_of_channels p) channel_id of
             None \<Rightarrow> None
           | Some c \<Rightarrow> Some (d, c)))"

definition generated :: "propagator \<Rightarrow> nat \<times> nat \<Rightarrow> bool" where
  "generated p s \<longleftrightarrow> entry (generated_kernels p) (fst s) (snd s) \<noteq> 0"

text \<open>The number of generator invocations one generation makes: one per leg.\<close>

definition legs :: "propagator \<Rightarrow> nat" where
  "legs p =
     (if propagator_type p = ''forward'' then 1
      else if propagator_type p = ''back and forth'' then 2
      else 0)"




text \<open>
  The instance after a generation for slot \<open>(d, c)\<close> has completed: the slice holds the
  kernel, broadcast to the slice's shape, and the flag is set.
\<close>

definition fill_slot :: "propagator \<Rightarrow> nat \<Rightarrow> nat \<Rightarrow> complex tensor \<Rightarrow> propagator" where
  "fill_slot p d c H =
     p\<lparr>kernels :=
         (kernels p)\<lparr>elems := (elems (kernels p))
            [d * cols (kernels p) + c := expand H (fst (slot_shape p)) (snd (slot_shape p))]\<rparr>,
       generated_kernels :=
         (generated_kernels p)\<lparr>elems := (elems (generated_kernels p))
            [d * cols (generated_kernels p) + c := 1]\<rparr>\<rparr>"

subsection \<open>Concrete instances\<close>

text \<open>
  A small configuration (one pixel, one wavelength, one depth layer, the constructor's
  defaults otherwise), a generator that returns the all-ones transfer function of the
  requested size, and one that rejects every request.
\<close>

definition small_config :: config where
  "small_config =
     \<lparr>cfg_resolution = (1, 1),
      cfg_wavelengths = [515 / 10 ^ 9],
      cfg_pixel_pitch = 8 / 10 ^ 6,
      cfg_resolution_factor = 1,
      cfg_number_of_frames = 1,
      cfg_number_of_depth_layers = 1,
      cfg_volume_depth = 1 / 100,
      cfg_image_location_offset = 5 / 1000,
      cfg_propagation_type = ''Bandlimited Angular Spectrum'',
      cfg_propagator_type = ''back and forth'',
      cfg_back_and_forth_distance = 3 / 10,
      cfg_laser_channel_power = None,
      cfg_aperture = None\<rparr>"

definition ones_generator :: generator where
  "ones_generator r = Inr (tabulate2 (arg_nu r) (arg_nv r) (\<lambda>i j. 1))"


definition unit_field :: "complex tensor" where
  "unit_field = tabulate2 1 1 (\<lambda>i j. 1)"


text \<open>
  The small configuration with a propagator type the code does not know, the small
  instance after one call, and a configuration with three depth layers.
\<close>

definition sideways_config :: config where
  "sideways_config = small_config\<lparr>cfg_propagator_type := ''sideways''\<rparr>"

definition warm_instance :: propagator where
  "warm_instance = fst (snd (call ones_generator (init small_config) unit_field 0 0))"

definition three_layer_config :: config where
  "three_layer_config =
     small_config\<lparr>cfg_number_of_depth_layers := 3, cfg_volume_depth := 2,
       cfg_image_location_offset := 5\<rparr>"

text \<open>
  The small configuration with resolution \<open>(2, 2)\<close>, and with resolution factor 2.
\<close>

definition square_config :: config where
  "square_config = small_config\<lparr>cfg_resolution := (2, 2)\<rparr>"

definition scaled_config :: config where
  "scaled_config = small_config\<lparr>cfg_resolution_factor := 2\<rparr>"

section \<open>Facts about tensors\<close>

lemma rows_tabulate2 [simp]: "rows (tabulate2 m n f) = m"
  and cols_tabulate2 [simp]: "cols (tabulate2 m n f) = n"
  and length_elems_tabulate2 [simp]: "length (elems (tabulate2 m n f)) = m * n"
  by (simp_all add: tabulate2_def)

lemma well_shaped_tabulate2 [simp]: "well_shaped (tabulate2 m n f)"
  by (simp add: well_shaped_def)

lemma flat_index_less: "i < m \<Longrightarrow> j < n \<Longrightarrow> i * n + j < m * (n::nat)"
proof -
  assume a: "i < m" "j < n"
  have "i * n + j < i * n + n" using a by simp
  also have "\<dots> = Suc i * n" by simp
  also have "\<dots> \<le> m * n" using a by (intro mult_le_mono1) simp
  finally show ?thesis .
qed

lemma entry_tabulate2 [simp]: "i < m \<Longrightarrow> j < n \<Longrightarrow> entry (tabulate2 m n f) i j = f i j"
  by (simp add: entry_def tabulate2_def flat_index_less)

lemma tabulate2_cong:
  "(\<And>i j. i < m \<Longrightarrow> j < n \<Longrightarrow> f i j = g i j) \<Longrightarrow> tabulate2 m n f = tabulate2 m n g"
proof -
  assume h: "\<And>i j. i < m \<Longrightarrow> j < n \<Longrightarrow> f i j = g i j"
  have "f (k div n) (k mod n) = g (k div n) (k mod n)" if "k < m * n" for k
  proof -
    have n: "0 < n" using that by (cases n) auto
    have "k div n < m" using that n by (simp add: less_mult_imp_div_less mult.commute)
    moreover have "k mod n < n" using n by simp
    ultimately show ?thesis by (rule h)
  qed
  then show ?thesis by (simp add: tabulate2_def)
qed

lemma tabulate2_entry: "well_shaped t \<Longrightarrow> tabulate2 (rows t) (cols t) (entry t) = t"
proof -
  assume w: "well_shaped t"
  have "map (\<lambda>k. entry t (k div cols t) (k mod cols t)) [0..<rows t * cols t] = elems t"
    using w by (intro nth_equalityI) (simp_all add: well_shaped_def entry_def)
  then show ?thesis by (simp add: tabulate2_def)
qed

lemma linspace_length: "length (linspace a b n) = n"
  by (simp add: linspace_def)

lemma linspace_nth: "i < n \<Longrightarrow> linspace a b n ! i = a + real i * ((b - a) / real (n - 1))"
  by (auto simp add: linspace_def)

lemma sorted_linspace: "a \<le> b \<Longrightarrow> sorted (linspace a b n)"
proof -
  assume ab: "a \<le> b"
  have "linspace a b n ! i \<le> linspace a b n ! j" if "i \<le> j" "j < n" for i j
  proof -
    have "0 \<le> (b - a) / real (n - 1)" using ab by simp
    then have "real i * ((b - a) / real (n - 1)) \<le> real j * ((b - a) / real (n - 1))"
      using that by (intro mult_right_mono) simp_all
    then show ?thesis using that by (simp add: linspace_nth)
  qed
  then show ?thesis by (simp add: sorted_iff_nth_mono linspace_length)
qed

section \<open>Facts about the forward call\<close>

lemma py_index_less: "py_index n i = Some k \<Longrightarrow> k < n"
  by (auto simp add: py_index_def split: if_splits)

lemma consistent_slot:
  assumes "consistent p" "d < number_of_depth_layers p" "c < number_of_channels p"
  shows "shape (entry (kernels p) d c) = slot_shape p" "well_shaped (entry (kernels p) d c)"
proof -
  have k: "cols (kernels p) = number_of_channels p" "rows (kernels p) = number_of_depth_layers p"
    and l: "length (elems (kernels p)) = number_of_depth_layers p * number_of_channels p"
    using assms(1) by (simp_all add: consistent_def shape_def well_shaped_def)
  have "d * number_of_channels p + c < length (elems (kernels p))"
    using assms(2,3) l by (simp add: flat_index_less)
  then have "entry (kernels p) d c \<in> set (elems (kernels p))"
    by (simp add: entry_def k)
  then show "shape (entry (kernels p) d c) = slot_shape p" "well_shaped (entry (kernels p) d c)"
    using assms(1) by (simp_all add: consistent_def)
qed

lemma call_index_error:
  assumes "consistent p" "slot_of p channel_id depth_id = None"
  shows "call gen p input_field channel_id depth_id = ([], p, Inl IndexError)"
  using assms
  by (auto simp add: call_def slot_of_def consistent_def shape_def getitem2_def
      split: option.splits)

lemma call_generated:
  assumes "consistent p" "slot_of p channel_id depth_id = Some s" "generated p s"
  shows "call gen p input_field channel_id depth_id =
           ([], p, propagate p input_field (entry (kernels p) (fst s) (snd s)))"
  using assms
  by (auto simp add: call_def slot_of_def consistent_def shape_def getitem2_def generated_def
      split: option.splits)

lemma call_not_generated:
  assumes "consistent p" "slot_of p channel_id depth_id = Some (d, c)" "\<not> generated p (d, c)"
  shows "call gen p input_field channel_id depth_id =
           (case generate gen p input_field channel_id (distances p ! d) of
              (reqs, Inl e) \<Rightarrow> (reqs, p, Inl e)
            | (reqs, Inr H) \<Rightarrow>
                if (rows H = fst (slot_shape p) \<or> rows H = 1) \<and>
                   (cols H = snd (slot_shape p) \<or> cols H = 1)
                then (reqs, fill_slot p d c H, propagate (fill_slot p d c H) input_field H)
                else (reqs, p, Inl RuntimeError))"
proof -
  have dc: "py_index (number_of_depth_layers p) depth_id = Some d"
    "py_index (number_of_channels p) channel_id = Some c"
    using assms(2) by (auto simp add: slot_of_def split: option.splits)
  have lt: "d < number_of_depth_layers p" "c < number_of_channels p"
    using dc by (auto dest: py_index_less)
  have sh: "rows (entry (kernels p) d c) = fst (slot_shape p)"
    "cols (entry (kernels p) d c) = snd (slot_shape p)"
    using consistent_slot(1)[OF assms(1) lt, unfolded shape_def, symmetric] by simp_all
  have sz: "length (distances p) = number_of_depth_layers p"
    "rows (generated_kernels p) = number_of_depth_layers p"
    "cols (generated_kernels p) = number_of_channels p"
    "rows (kernels p) = number_of_depth_layers p"
    "cols (kernels p) = number_of_channels p"
    using assms(1) by (simp_all add: consistent_def shape_def)
  have fl: "entry (generated_kernels p) d c = 0"
    using assms(3) by (simp add: generated_def)
  show ?thesis
    by (simp add: call_def sz dc getitem2_def setitem2_def store_kernel_def fl sh fill_slot_def
        Let_def split: prod.splits sum.splits)
qed

lemma flat_index_inj:
  assumes "c < n" "c' < n" "d * n + c = d' * n + (c'::nat)"
  shows "d = d' \<and> c = c'"
proof -
  have "(d * n + c) div n = d" "(d' * n + c') div n = d'"
    using assms(1,2) by simp_all
  then have "d = d'" using assms(3) by simp
  then show ?thesis using assms(3) by simp
qed

lemma fill_slot_fields [simp]:
  "pixel_pitch (fill_slot p d c H) = pixel_pitch p"
  "wavelengths (fill_slot p d c H) = wavelengths p"
  "resolution (fill_slot p d c H) = resolution p"
  "resolution_factor (fill_slot p d c H) = resolution_factor p"
  "number_of_depth_layers (fill_slot p d c H) = number_of_depth_layers p"
  "number_of_channels (fill_slot p d c H) = number_of_channels p"
  "image_location_offset (fill_slot p d c H) = image_location_offset p"
  "propagation_type (fill_slot p d c H) = propagation_type p"
  "propagator_type (fill_slot p d c H) = propagator_type p"
  "zero_mode_distance (fill_slot p d c H) = zero_mode_distance p"
  "aperture (fill_slot p d c H) = aperture p"
  "distances (fill_slot p d c H) = distances p"
  "channel_power (fill_slot p d c H) = channel_power p"
  by (simp_all add: fill_slot_def)

lemma fill_slot_derived [simp]:
  "slot_shape (fill_slot p d c H) = slot_shape p"
  "legs (fill_slot p d c H) = legs p"
  "slot_of (fill_slot p d c H) i j = slot_of p i j"
  by (simp_all add: slot_shape_def legs_def slot_of_def split: option.splits)

lemma consistent_fill_slot:
  assumes "consistent p"
  shows "consistent (fill_slot p d c H)"
proof -
  have "k \<in> set ((elems (kernels p))[i := expand H (fst (slot_shape p)) (snd (slot_shape p))])
        \<Longrightarrow> shape k = slot_shape p \<and> well_shaped k" for k i
    using assms by (auto simp add: consistent_def expand_def shape_def dest!: set_update_subset_insert[THEN subsetD])
  then show ?thesis
    using assms
    by (simp add: consistent_def fill_slot_def shape_def well_shaped_def slot_shape_def)
qed

lemma generated_fill_slot_same:
  assumes "consistent p" "d < number_of_depth_layers p" "c < number_of_channels p"
  shows "generated (fill_slot p d c H) (d, c)"
proof -
  have "d * number_of_channels p + c < length (elems (generated_kernels p))"
    using assms by (simp add: consistent_def well_shaped_def shape_def flat_index_less)
  then show ?thesis
    using assms(1) by (simp add: generated_def fill_slot_def entry_def consistent_def shape_def)
qed


lemma fill_slot_other:
  assumes "consistent p" "c < number_of_channels p" "c' < number_of_channels p" "(d', c') \<noteq> (d, c)"
  shows "entry (kernels (fill_slot p d c H)) d' c' = entry (kernels p) d' c'"
    and "entry (generated_kernels (fill_slot p d c H)) d' c' = entry (generated_kernels p) d' c'"
proof -
  have ne: "d * number_of_channels p + c \<noteq> d' * number_of_channels p + c'"
    using flat_index_inj[OF assms(2,3)] assms(4) by auto
  show "entry (kernels (fill_slot p d c H)) d' c' = entry (kernels p) d' c'"
    using assms(1) ne by (simp add: fill_slot_def entry_def consistent_def shape_def)
  show "entry (generated_kernels (fill_slot p d c H)) d' c' = entry (generated_kernels p) d' c'"
    using assms(1) ne by (simp add: fill_slot_def entry_def consistent_def shape_def)
qed

lemma slot_of_less:
  "slot_of p i j = Some (d, c) \<Longrightarrow> d < number_of_depth_layers p \<and> c < number_of_channels p"
  by (auto simp add: slot_of_def split: option.splits dest: py_index_less)

lemma call_state:
  assumes "consistent p"
  shows "fst (snd (call gen p input_field channel_id depth_id)) = p \<or>
         (\<exists>d c H. slot_of p channel_id depth_id = Some (d, c) \<and> \<not> generated p (d, c) \<and>
            fst (snd (call gen p input_field channel_id depth_id)) = fill_slot p d c H)"
proof (cases "slot_of p channel_id depth_id")
  case None
  then show ?thesis using assms by (simp add: call_index_error)
next
  case (Some s)
  obtain d c where s: "s = (d, c)" by (cases s)
  show ?thesis
  proof (cases "generated p (d, c)")
    case True
    then show ?thesis using assms Some s by (simp add: call_generated)
  next
    case False
    show ?thesis
      using False Some s
      by (auto simp add: call_not_generated[OF assms Some[unfolded s] False]
          split: prod.splits sum.splits)
  qed
qed

lemma consistent_call:
  "consistent p \<Longrightarrow> consistent (fst (snd (call gen p input_field channel_id depth_id)))"
  using call_state[of p gen input_field channel_id depth_id]
  by (auto simp add: consistent_fill_slot)



lemma set_aperture_fields [simp]:
  "pixel_pitch (set_aperture p a s) = pixel_pitch p"
  "wavelengths (set_aperture p a s) = wavelengths p"
  "resolution (set_aperture p a s) = resolution p"
  "resolution_factor (set_aperture p a s) = resolution_factor p"
  "number_of_frames (set_aperture p a s) = number_of_frames p"
  "number_of_depth_layers (set_aperture p a s) = number_of_depth_layers p"
  "number_of_channels (set_aperture p a s) = number_of_channels p"
  "volume_depth (set_aperture p a s) = volume_depth p"
  "image_location_offset (set_aperture p a s) = image_location_offset p"
  "propagation_type (set_aperture p a s) = propagation_type p"
  "propagator_type (set_aperture p a s) = propagator_type p"
  "zero_mode_distance (set_aperture p a s) = zero_mode_distance p"
  "distances (set_aperture p a s) = distances p"
  "generated_kernels (set_aperture p a s) = generated_kernels p"
  "kernels (set_aperture p a s) = kernels p"
  "kernel_components (set_aperture p a s) = kernel_components p"
  "channel_power (set_aperture p a s) = channel_power p"
  "phase_scale (set_aperture p a s) = phase_scale p"
  by (simp_all add: set_aperture_def Let_def split: option.splits)

lemma init_fields:
  "pixel_pitch (init cfg) = cfg_pixel_pitch cfg"
  "wavelengths (init cfg) = cfg_wavelengths cfg"
  "resolution (init cfg) = cfg_resolution cfg"
  "resolution_factor (init cfg) = cfg_resolution_factor cfg"
  "number_of_depth_layers (init cfg) = cfg_number_of_depth_layers cfg"
  "number_of_channels (init cfg) = length (cfg_wavelengths cfg)"
  "volume_depth (init cfg) = cfg_volume_depth cfg"
  "image_location_offset (init cfg) = cfg_image_location_offset cfg"
  "propagation_type (init cfg) = cfg_propagation_type cfg"
  "propagator_type (init cfg) = cfg_propagator_type cfg"
  "zero_mode_distance (init cfg) = cfg_back_and_forth_distance cfg"
  "distances (init cfg) =
     map (\<lambda>x. x + cfg_image_location_offset cfg)
       (linspace (- cfg_volume_depth cfg / 2) (cfg_volume_depth cfg / 2)
          (cfg_number_of_depth_layers cfg))"
  "generated_kernels (init cfg) =
     zeros (cfg_number_of_depth_layers cfg) (length (cfg_wavelengths cfg))"
  "kernels (init cfg) =
     tabulate2 (cfg_number_of_depth_layers cfg) (length (cfg_wavelengths cfg))
       (\<lambda>d c. zeros (fst (cfg_resolution cfg) * cfg_resolution_factor cfg * 2)
                     (snd (cfg_resolution cfg) * cfg_resolution_factor cfg * 2))"
  by (simp_all add: init_def Let_def init_distances_def init_kernels_def
      init_channel_power_def init_phase_scale_def split: option.splits)

lemma consistent_init: "consistent (init cfg)"
proof -
  have "shape k = slot_shape (init cfg) \<and> well_shaped k"
    if "k \<in> set (elems (kernels (init cfg)))" for k
    using that by (auto simp add: init_fields tabulate2_def[of "cfg_number_of_depth_layers cfg"]
        zeros_def shape_def slot_shape_def)
  then show ?thesis
    by (simp add: consistent_def init_fields linspace_length shape_def zeros_def)
qed

lemma consistent_set_aperture: "consistent p \<Longrightarrow> consistent (set_aperture p a s)"
  by (simp add: consistent_def slot_shape_def)

lemma consistent_set_laser_powers: "consistent p \<Longrightarrow> consistent (set_laser_powers p lp)"
  by (simp add: consistent_def slot_shape_def set_laser_powers_def)






lemma small_init_slot: "slot_of (init small_config) 0 0 = Some (0, 0)"
  by (simp add: slot_of_def init_fields small_config_def py_index_def)



lemma slot_of_wavelengths:
  "consistent p \<Longrightarrow> slot_of p channel_id depth_id = Some (d, c) \<Longrightarrow>
     py_index (length (wavelengths p)) channel_id = Some c"
  by (auto simp add: consistent_def slot_of_def split: option.splits)



section \<open>The cache-once property\<close>




lemma init_not_generated:
  assumes "slot_of (init cfg) channel_id depth_id = Some s"
  shows "\<not> generated (init cfg) s"
proof -
  obtain d c where s: "s = (d, c)" by (cases s)
  have "d < cfg_number_of_depth_layers cfg" "c < length (cfg_wavelengths cfg)"
    using slot_of_less[OF assms[unfolded s]] by (simp_all add: init_fields)
  then show ?thesis by (simp add: generated_def init_fields zeros_def s)
qed


lemma py_index_too_large: "int n \<le> i \<Longrightarrow> py_index n i = None"
  by (simp add: py_index_def)





section \<open>Failures of the forward call\<close>

text \<open>
  Claim C7. The constructor accepts any \<open>propagator_type\<close>. When it is neither \<open>forward\<close>
  nor \<open>back and forth\<close>, a call with valid indices for a slot not generated yet makes no
  request to the generator, raises the error of the unknown propagator type (in Python the
  \<open>UnboundLocalError\<close> of the never assigned \<open>H\<close>) and leaves the instance as it was, so
  the slot stays ungenerated and every later call for it fails the same way.
\<close>

theorem unknown_propagator_type_fails:
  assumes "consistent p"
    and "propagator_type p \<noteq> ''forward''" and "propagator_type p \<noteq> ''back and forth''"
    and "slot_of p channel_id depth_id = Some s" and "\<not> generated p s"
  shows "call gen p input_field channel_id depth_id = ([], p, Inl UnboundLocalError)"
proof -
  obtain d c where s: "s = (d, c)" by (cases s)
  show ?thesis
    using assms(2,3)
    by (simp add: call_not_generated[OF assms(1) assms(4)[unfolded s] assms(5)[unfolded s]]
        generate_def)
qed

lemma sideways_init_type: "propagator_type (init sideways_config) = ''sideways''"
  by (simp add: init_fields sideways_config_def small_config_def)

lemma sideways_init_slot: "slot_of (init sideways_config) 0 0 = Some (0, 0)"
  by (simp add: slot_of_def init_fields small_config_def sideways_config_def py_index_def)

theorem unknown_propagator_type_fails_witness:
  "consistent (init sideways_config) \<and>
   propagator_type (init sideways_config) = ''sideways'' \<and>
   slot_of (init sideways_config) 0 0 = Some (0, 0) \<and>
   \<not> generated (init sideways_config) (0, 0) \<and>
   call ones_generator (init sideways_config) unit_field 0 0 =
     ([], init sideways_config, Inl UnboundLocalError)"
  using unknown_propagator_type_fails[OF consistent_init _ _ sideways_init_slot
      init_not_generated[OF sideways_init_slot], of ones_generator unit_field]
    consistent_init[of sideways_config] init_not_generated[OF sideways_init_slot]
  by (simp add: sideways_init_type sideways_init_slot)

text \<open>
  Claim C8. The number of channels is the number of wavelengths. A call whose \<open>channel_id\<close>
  is at least the number of channels, or whose \<open>depth_id\<close> is at least the number of depth
  layers, raises \<open>IndexError\<close>: it returns no field, makes no request to the generator and
  leaves the instance, with every kernel cached so far, unchanged.
\<close>

theorem index_out_of_range_fails:
  assumes "consistent p"
  shows "number_of_channels p = length (wavelengths p) \<and>
         (int (number_of_channels p) \<le> channel_id \<longrightarrow>
            call gen p input_field channel_id depth_id = ([], p, Inl IndexError)) \<and>
         (int (number_of_depth_layers p) \<le> depth_id \<longrightarrow>
            call gen p input_field channel_id depth_id = ([], p, Inl IndexError))"
proof -
  have "slot_of p channel_id depth_id = None"
    if "int (number_of_channels p) \<le> channel_id \<or> int (number_of_depth_layers p) \<le> depth_id"
    using that by (auto simp add: slot_of_def py_index_too_large split: option.splits)
  then show ?thesis
    using assms call_index_error[OF assms] by (auto simp add: consistent_def)
qed

theorem index_out_of_range_fails_witness:
  "consistent (init small_config) \<and>
   int (number_of_channels (init small_config)) \<le> 1 \<and>
   call ones_generator (init small_config) unit_field 1 0 =
     ([], init small_config, Inl IndexError) \<and>
   int (number_of_depth_layers (init small_config)) \<le> 1 \<and>
   call ones_generator (init small_config) unit_field 0 1 =
     ([], init small_config, Inl IndexError)"
  using index_out_of_range_fails[OF consistent_init, of small_config 1 ones_generator unit_field 0]
    index_out_of_range_fails[OF consistent_init, of small_config 0 ones_generator unit_field 1]
    consistent_init[of small_config]
  by (simp add: init_fields small_config_def)








lemma small_init_sizes:
  "number_of_channels (init small_config) = 1"
  "number_of_depth_layers (init small_config) = 1"
  by (simp_all add: init_fields small_config_def)


lemma call_stores:
  assumes "consistent p" "slot_of p channel_id depth_id = Some (d, c)" "\<not> generated p (d, c)"
    "generated (fst (snd (call gen p input_field channel_id depth_id))) (d, c)"
  shows "\<exists>H. snd (generate gen p input_field channel_id (distances p ! d)) = Inr H \<and>
           fst (call gen p input_field channel_id depth_id) =
             fst (generate gen p input_field channel_id (distances p ! d)) \<and>
           fst (snd (call gen p input_field channel_id depth_id)) = fill_slot p d c H"
  using assms(3,4)
  by (auto simp add: call_not_generated[OF assms(1,2,3)] split: prod.splits sum.splits if_splits)

lemma entry_fill_slot_same:
  assumes "consistent p" "d < number_of_depth_layers p" "c < number_of_channels p"
  shows "entry (kernels (fill_slot p d c H)) d c =
           expand H (fst (slot_shape p)) (snd (slot_shape p))"
proof -
  have "d * number_of_channels p + c < length (elems (kernels p))"
    using assms by (simp add: consistent_def well_shaped_def shape_def flat_index_less)
  then show ?thesis
    using assms(1) by (simp add: fill_slot_def entry_def consistent_def shape_def)
qed

lemma bentry_tabulate2:
  "i < m \<Longrightarrow> j < n \<Longrightarrow> bentry (tabulate2 m n f) i j = f i j"
  by (auto simp add: bentry_def)

lemma bentry_entry: "i < rows t \<Longrightarrow> j < cols t \<Longrightarrow> bentry t i j = entry t i j"
  by (auto simp add: bentry_def)

lemma expand_tmul_same_shape:
  assumes "shape x = (m, n)" "shape y = (m, n)" "tmul x y = Inr H"
  shows "expand H m n = tabulate2 m n (\<lambda>i j. entry x i j * entry y i j)"
proof -
  have r: "rows x = m" "cols x = n" "rows y = m" "cols y = n"
    using assms(1,2) by (simp_all add: shape_def)
  have H: "H = tabulate2 m n (\<lambda>i j. bentry x i j * bentry y i j)"
    using assms(3) by (simp add: tmul_def bdim_def r)
  show ?thesis
    unfolding expand_def H
    by (rule tabulate2_cong) (simp add: bentry_tabulate2 bentry_entry r)
qed

lemma back_and_forth_requests:
  assumes "consistent p" and "propagator_type p = ''back and forth''"
    and "slot_of p channel_id depth_id = Some (d, c)"
    and "\<not> generated p (d, c)"
    and "generated (fst (snd (call gen p input_field channel_id depth_id))) (d, c)"
  shows "\<exists>H_forward H_back H.
           gen (request p input_field (wavelengths p ! c) (zero_mode_distance p)) =
             Inr H_forward \<and>
           gen (request p input_field (wavelengths p ! c)
                  (- (zero_mode_distance p + image_location_offset p - distances p ! d))) =
             Inr H_back \<and>
           fst (call gen p input_field channel_id depth_id) =
             [request p input_field (wavelengths p ! c) (zero_mode_distance p),
              request p input_field (wavelengths p ! c)
                (- (zero_mode_distance p + image_location_offset p - distances p ! d))] \<and>
           tmul H_forward H_back = Inr H \<and>
           entry (kernels (fst (snd (call gen p input_field channel_id depth_id)))) d c =
             expand H (fst (slot_shape p)) (snd (slot_shape p)) \<and>
           (shape H_forward = slot_shape p \<and> shape H_back = slot_shape p \<longrightarrow>
              entry (kernels (fst (snd (call gen p input_field channel_id depth_id)))) d c =
                tabulate2 (fst (slot_shape p)) (snd (slot_shape p))
                  (\<lambda>i j. entry H_forward i j * entry H_back i j))"
proof -
  let ?r1 = "request p input_field (wavelengths p ! c) (zero_mode_distance p)"
  let ?r2 = "request p input_field (wavelengths p ! c)
                (- (zero_mode_distance p + image_location_offset p - distances p ! d))"
  let ?p' = "fst (snd (call gen p input_field channel_id depth_id))"
  obtain H where H: "snd (generate gen p input_field channel_id (distances p ! d)) = Inr H"
    and rq: "fst (call gen p input_field channel_id depth_id) =
             fst (generate gen p input_field channel_id (distances p ! d))"
    and st: "?p' = fill_slot p d c H"
    using call_stores[OF assms(1,3,4,5)] by blast
  note w = slot_of_wavelengths[OF assms(1,3)]
  have ne: "propagator_type p \<noteq> ''forward''" using assms(2) by simp
  obtain Hf where Hf: "gen ?r1 = Inr Hf"
    using H by (cases "gen ?r1") (simp_all add: generate_def assms(2) w invoke_def)
  obtain Hb where Hb: "gen ?r2 = Inr Hb"
    using H Hf by (cases "gen ?r2") (simp_all add: generate_def assms(2) w invoke_def)
  have g: "generate gen p input_field channel_id (distances p ! d) = ([?r1, ?r2], tmul Hf Hb)"
    using Hf Hb by (simp add: generate_def assms(2) w invoke_def)
  have t: "tmul Hf Hb = Inr H" using H g by simp
  have lt: "d < number_of_depth_layers p" "c < number_of_channels p"
    using slot_of_less[OF assms(3)] by simp_all
  have e: "entry (kernels ?p') d c = expand H (fst (slot_shape p)) (snd (slot_shape p))"
    by (simp add: st entry_fill_slot_same[OF assms(1) lt])
  have "entry (kernels ?p') d c =
          tabulate2 (fst (slot_shape p)) (snd (slot_shape p)) (\<lambda>i j. entry Hf i j * entry Hb i j)"
    if "shape Hf = slot_shape p" "shape Hb = slot_shape p"
    using expand_tmul_same_shape[OF _ _ t, of "fst (slot_shape p)" "snd (slot_shape p)"] that e
    by simp
  then show ?thesis
    using Hf Hb t e rq g by auto
qed

section \<open>The back-and-forth kernel\<close>

text \<open>
  Claim C2. With \<open>propagator_type = 'back and forth'\<close>, whenever a call fills the slot
  \<open>(d, c)\<close> for the first time, the generator was asked exactly twice: once for the distance
  \<open>zero_mode_distance\<close> and once for
  \<open>-(zero_mode_distance + image_location_offset - distances[d])\<close>, both times with the
  wavelength \<open>wavelengths[c]\<close>, the size of the padded input field, the pixel pitch, the
  propagation model and the resolution factor of the instance. The kernel stored is the
  product of the two answers, broadcast to the shape of the slice, and when both answers
  have that shape it is their elementwise product.
\<close>

theorem back_and_forth_kernel:
  assumes "consistent p" and "propagator_type p = ''back and forth''"
    and "slot_of p channel_id depth_id = Some (d, c)"
    and "\<not> generated p (d, c)"
    and "generated (fst (snd (call gen p input_field channel_id depth_id))) (d, c)"
  shows "\<exists>H_forward H_back H.
           gen \<lparr>arg_nu = rows input_field * 2, arg_nv = cols input_field * 2,
                arg_dx = pixel_pitch p, arg_wavelength = wavelengths p ! c,
                arg_distance = zero_mode_distance p,
                arg_propagation_type = propagation_type p,
                arg_scale = resolution_factor p\<rparr> = Inr H_forward \<and>
           gen \<lparr>arg_nu = rows input_field * 2, arg_nv = cols input_field * 2,
                arg_dx = pixel_pitch p, arg_wavelength = wavelengths p ! c,
                arg_distance =
                  - (zero_mode_distance p + image_location_offset p - distances p ! d),
                arg_propagation_type = propagation_type p,
                arg_scale = resolution_factor p\<rparr> = Inr H_back \<and>
           fst (call gen p input_field channel_id depth_id) =
             [\<lparr>arg_nu = rows input_field * 2, arg_nv = cols input_field * 2,
               arg_dx = pixel_pitch p, arg_wavelength = wavelengths p ! c,
               arg_distance = zero_mode_distance p,
               arg_propagation_type = propagation_type p,
               arg_scale = resolution_factor p\<rparr>,
              \<lparr>arg_nu = rows input_field * 2, arg_nv = cols input_field * 2,
               arg_dx = pixel_pitch p, arg_wavelength = wavelengths p ! c,
               arg_distance =
                 - (zero_mode_distance p + image_location_offset p - distances p ! d),
               arg_propagation_type = propagation_type p,
               arg_scale = resolution_factor p\<rparr>] \<and>
           tmul H_forward H_back = Inr H \<and>
           entry (kernels (fst (snd (call gen p input_field channel_id depth_id)))) d c =
             expand H (fst (slot_shape p)) (snd (slot_shape p)) \<and>
           (shape H_forward = slot_shape p \<and> shape H_back = slot_shape p \<longrightarrow>
              entry (kernels (fst (snd (call gen p input_field channel_id depth_id)))) d c =
                tabulate2 (fst (slot_shape p)) (snd (slot_shape p))
                  (\<lambda>i j. entry H_forward i j * entry H_back i j))"
  using back_and_forth_requests[OF assms] unfolding request_def .

lemma small_init_not_generated: "\<not> generated (init small_config) (0, 0)"
  by (rule init_not_generated[OF small_init_slot])

lemma small_init_type: "propagator_type (init small_config) = ''back and forth''"
  by (simp add: init_fields small_config_def)

lemma small_slot_shape: "slot_shape (init small_config) = (2, 2)"
  by (simp add: slot_shape_def init_fields small_config_def)

lemma small_generate:
  "\<exists>rs H. generate ones_generator (init small_config) unit_field 0 x = (rs, Inr H) \<and>
      rows H = 2 \<and> cols H = 2"
proof -
  have w: "py_index (length (wavelengths (init small_config))) 0 = Some 0"
    by (simp add: init_fields small_config_def py_index_def)
  show ?thesis
    by (simp add: generate_def small_init_type w invoke_def ones_generator_def request_def
        unit_field_def tmul_def bdim_def Let_def)
qed

lemma warm_instance_filled: "\<exists>H. warm_instance = fill_slot (init small_config) 0 0 H"
proof -
  obtain rs H where g: "generate ones_generator (init small_config) unit_field 0
      (distances (init small_config) ! 0) = (rs, Inr H)" and r: "rows H = 2" "cols H = 2"
    using small_generate by blast
  have "warm_instance = fill_slot (init small_config) 0 0 H"
    unfolding warm_instance_def
    by (simp add: call_not_generated[OF consistent_init small_init_slot small_init_not_generated]
        g r small_slot_shape)
  then show ?thesis ..
qed

lemma warm_instance_consistent: "consistent warm_instance"
  unfolding warm_instance_def by (rule consistent_call[OF consistent_init])

lemma warm_instance_generated: "generated warm_instance (0, 0)"
proof -
  obtain H where "warm_instance = fill_slot (init small_config) 0 0 H"
    using warm_instance_filled by blast
  then show ?thesis
    using generated_fill_slot_same[OF consistent_init, of 0 small_config 0 H]
    by (simp add: small_init_sizes)
qed

lemma small_init_values:
  "pixel_pitch (init small_config) = 8 / 10 ^ 6"
  "wavelengths (init small_config) ! 0 = 515 / 10 ^ 9"
  "zero_mode_distance (init small_config) = 3 / 10"
  "image_location_offset (init small_config) = 5 / 1000"
  "distances (init small_config) ! 0 = 0"
  "propagation_type (init small_config) = ''Bandlimited Angular Spectrum''"
  "resolution_factor (init small_config) = 1"
  by (simp_all add: init_fields small_config_def linspace_def)

lemma unit_field_dims: "rows unit_field = 1" "cols unit_field = 1"
  by (simp_all add: unit_field_def)

theorem back_and_forth_kernel_witness:
  "consistent (init small_config) \<and>
   propagator_type (init small_config) = ''back and forth'' \<and>
   slot_of (init small_config) 0 0 = Some (0, 0) \<and>
   \<not> generated (init small_config) (0, 0) \<and>
   generated (fst (snd (call ones_generator (init small_config) unit_field 0 0))) (0, 0) \<and>
   (\<exists>H_forward H_back H.
      ones_generator
        \<lparr>arg_nu = 2, arg_nv = 2, arg_dx = 8 / 10 ^ 6, arg_wavelength = 515 / 10 ^ 9,
         arg_distance = 3 / 10, arg_propagation_type = ''Bandlimited Angular Spectrum'',
         arg_scale = 1\<rparr> = Inr H_forward \<and>
      ones_generator
        \<lparr>arg_nu = 2, arg_nv = 2, arg_dx = 8 / 10 ^ 6, arg_wavelength = 515 / 10 ^ 9,
         arg_distance = - (3 / 10 + 5 / 1000 - 0),
         arg_propagation_type = ''Bandlimited Angular Spectrum'', arg_scale = 1\<rparr> = Inr H_back \<and>
      fst (call ones_generator (init small_config) unit_field 0 0) =
        [\<lparr>arg_nu = 2, arg_nv = 2, arg_dx = 8 / 10 ^ 6, arg_wavelength = 515 / 10 ^ 9,
          arg_distance = 3 / 10, arg_propagation_type = ''Bandlimited Angular Spectrum'',
          arg_scale = 1\<rparr>,
         \<lparr>arg_nu = 2, arg_nv = 2, arg_dx = 8 / 10 ^ 6, arg_wavelength = 515 / 10 ^ 9,
          arg_distance = - (3 / 10 + 5 / 1000 - 0),
          arg_propagation_type = ''Bandlimited Angular Spectrum'', arg_scale = 1\<rparr>] \<and>
      tmul H_forward H_back = Inr H \<and>
      entry (kernels (fst (snd (call ones_generator (init small_config) unit_field 0 0)))) 0 0 =
        expand H 2 2)"
proof -
  note t = back_and_forth_kernel[OF consistent_init small_init_type small_init_slot
      small_init_not_generated warm_instance_generated[unfolded warm_instance_def],
      unfolded small_init_values unit_field_dims small_slot_shape fst_conv snd_conv]
  have n: "(1::nat) * 2 = 2" by simp
  show ?thesis
    using t[unfolded n] consistent_init[of small_config] small_init_type small_init_slot
      small_init_not_generated warm_instance_generated[unfolded warm_instance_def]
    by blast
qed

lemma call_distances:
  "distances (fst (snd (call gen p input_field channel_id depth_id))) = distances p"
  by (auto simp add: call_def Let_def split: option.splits sum.splits prod.splits)

lemma call_channel_power:
  "channel_power (fst (snd (call gen p input_field channel_id depth_id))) = channel_power p"
  by (auto simp add: call_def Let_def split: option.splits sum.splits prod.splits)

lemma step_distances: "distances (step gen p x) = distances p"
  by (cases x) (simp_all add: call_distances set_laser_powers_def)

lemma run_distances: "distances (run gen p xs) = distances p"
  by (induction xs arbitrary: p) (simp_all add: step_distances)

lemma consistent_step: "consistent p \<Longrightarrow> consistent (step gen p x)"
  by (cases x) (simp_all add: consistent_call consistent_set_aperture consistent_set_laser_powers)

lemma step_sizes:
  "number_of_depth_layers (step gen p x) = number_of_depth_layers p"
  "number_of_channels (step gen p x) = number_of_channels p"
  by (cases x; auto simp add: call_def set_laser_powers_def Let_def
      split: option.splits sum.splits prod.splits)+

lemma step_keeps_slot:
  assumes "consistent p" "d < number_of_depth_layers p" "c < number_of_channels p"
    "generated p (d, c)"
  shows "generated (step gen p x) (d, c) \<and>
         entry (kernels (step gen p x)) d c = entry (kernels p) d c"
proof (cases x)
  case (Call input_field channel_id depth_id)
  have "fst (snd (call gen p input_field channel_id depth_id)) = p \<or>
        (\<exists>d' c' H. slot_of p channel_id depth_id = Some (d', c') \<and> \<not> generated p (d', c') \<and>
           fst (snd (call gen p input_field channel_id depth_id)) = fill_slot p d' c' H)"
    using assms(1) by (rule call_state)
  then show ?thesis
  proof
    assume "fst (snd (call gen p input_field channel_id depth_id)) = p"
    then show ?thesis using assms(4) Call by simp
  next
    assume "\<exists>d' c' H. slot_of p channel_id depth_id = Some (d', c') \<and> \<not> generated p (d', c') \<and>
           fst (snd (call gen p input_field channel_id depth_id)) = fill_slot p d' c' H"
    then obtain d' c' H where s: "slot_of p channel_id depth_id = Some (d', c')"
      and n: "\<not> generated p (d', c')"
      and f: "fst (snd (call gen p input_field channel_id depth_id)) = fill_slot p d' c' H"
      by blast
    have ne: "(d, c) \<noteq> (d', c')" using n assms(4) by auto
    have lt: "c' < number_of_channels p" using slot_of_less[OF s] by simp
    show ?thesis
      using fill_slot_other[OF assms(1) lt assms(3) ne, of H] assms(4)
      by (simp add: Call f generated_def)
  qed
qed (use assms(4) in \<open>simp_all add: generated_def set_laser_powers_def\<close>)

lemma run_keeps_slot:
  "consistent p \<Longrightarrow> d < number_of_depth_layers p \<Longrightarrow> c < number_of_channels p \<Longrightarrow>
   generated p (d, c) \<Longrightarrow>
   generated (run gen p xs) (d, c) \<and> entry (kernels (run gen p xs)) d c = entry (kernels p) d c"
proof (induction xs arbitrary: p)
  case Nil
  then show ?case by simp
next
  case (Cons x xs)
  have k: "generated (step gen p x) (d, c)"
    "entry (kernels (step gen p x)) d c = entry (kernels p) d c"
    using step_keeps_slot[OF Cons.prems, of gen x] by simp_all
  have "generated (run gen (step gen p x) xs) (d, c) \<and>
        entry (kernels (run gen (step gen p x) xs)) d c = entry (kernels (step gen p x)) d c"
    using Cons.prems k(1)
    by (intro Cons.IH) (simp_all add: consistent_step step_sizes)
  then show ?case using k(2) by simp
qed

section \<open>What the operations leave alone\<close>

text \<open>
  Claim C9. \<open>set_aperture\<close> leaves the kernels, the flags, the depth schedule and the
  channel powers as they are; and a slot whose flag is set keeps its flag and its kernel
  through every sequence of operations on the instance.
\<close>

theorem set_aperture_frame:
  "kernels (set_aperture p a s) = kernels p \<and>
   generated_kernels (set_aperture p a s) = generated_kernels p \<and>
   distances (set_aperture p a s) = distances p \<and>
   channel_power (set_aperture p a s) = channel_power p \<and>
   (consistent p \<and> d < number_of_depth_layers p \<and> c < number_of_channels p \<and>
    generated p (d, c) \<longrightarrow>
      generated (run gen p xs) (d, c) \<and>
      entry (kernels (run gen p xs)) d c = entry (kernels p) d c)"
  using run_keeps_slot[of p d c gen xs] by simp

lemma warm_instance_sizes:
  "number_of_depth_layers warm_instance = 1" "number_of_channels warm_instance = 1"
proof -
  obtain H where w: "warm_instance = fill_slot (init small_config) 0 0 H"
    using warm_instance_filled by blast
  show "number_of_depth_layers warm_instance = 1" "number_of_channels warm_instance = 1"
    unfolding w by (simp_all add: small_init_sizes)
qed

theorem set_aperture_frame_witness:
  "consistent warm_instance \<and> 0 < number_of_depth_layers warm_instance \<and>
   0 < number_of_channels warm_instance \<and> generated warm_instance (0, 0) \<and>
   generated (run ones_generator warm_instance
      [Set_aperture None None, Call unit_field 0 0, Set_laser_powers (eye 1 1), Get_kernels])
      (0, 0) \<and>
   entry (kernels (run ones_generator warm_instance
      [Set_aperture None None, Call unit_field 0 0, Set_laser_powers (eye 1 1), Get_kernels]))
      0 0 = entry (kernels warm_instance) 0 0"
  using set_aperture_frame[of warm_instance None None 0 0 ones_generator
      "[Set_aperture None None, Call unit_field 0 0, Set_laser_powers (eye 1 1), Get_kernels]"]
    warm_instance_consistent warm_instance_generated
  by (simp add: warm_instance_sizes)

lemma init_distances_nth:
  assumes "i < cfg_number_of_depth_layers cfg"
  shows "distances (init cfg) ! i =
         - cfg_volume_depth cfg / 2
         + real i * (cfg_volume_depth cfg / real (cfg_number_of_depth_layers cfg - 1))
         + cfg_image_location_offset cfg"
  using assms by (simp add: init_fields linspace_length linspace_nth)

lemma init_distances_length: "length (distances (init cfg)) = cfg_number_of_depth_layers cfg"
  by (simp add: init_fields linspace_length)

lemma init_distances_sorted:
  assumes "0 \<le> cfg_volume_depth cfg"
  shows "sorted (distances (init cfg))"
proof -
  have "sorted (linspace (- cfg_volume_depth cfg / 2) (cfg_volume_depth cfg / 2)
          (cfg_number_of_depth_layers cfg))"
    using assms by (intro sorted_linspace) simp
  then show ?thesis
    by (simp add: init_fields sorted_iff_nth_mono)
qed

lemma init_distances_hd:
  assumes "0 < cfg_number_of_depth_layers cfg"
  shows "hd (distances (init cfg)) = - cfg_volume_depth cfg / 2 + cfg_image_location_offset cfg"
proof -
  have "distances (init cfg) \<noteq> []"
    using assms init_distances_length[of cfg] by auto
  then have "hd (distances (init cfg)) = distances (init cfg) ! 0"
    by (rule hd_conv_nth)
  then show ?thesis using init_distances_nth[OF assms] by simp
qed

lemma init_distances_last:
  assumes "2 \<le> cfg_number_of_depth_layers cfg"
  shows "last (distances (init cfg)) = cfg_volume_depth cfg / 2 + cfg_image_location_offset cfg"
proof -
  let ?n = "cfg_number_of_depth_layers cfg"
  have ne: "distances (init cfg) \<noteq> []"
    using assms init_distances_length[of cfg] by auto
  have "last (distances (init cfg)) = distances (init cfg) ! (?n - 1)"
    using last_conv_nth[OF ne] by (simp add: init_distances_length)
  also have "\<dots> = - cfg_volume_depth cfg / 2
         + real (?n - 1) * (cfg_volume_depth cfg / real (?n - 1))
         + cfg_image_location_offset cfg"
    using assms by (intro init_distances_nth) simp
  also have "real (?n - 1) * (cfg_volume_depth cfg / real (?n - 1)) = cfg_volume_depth cfg"
    using assms by simp
  finally show ?thesis by simp
qed

section \<open>The depth schedule\<close>

text \<open>
  Claim C5. The constructor computes \<open>number_of_depth_layers\<close> distances, the \<open>i\<close>-th being
  \<open>-volume_depth / 2 + i * volume_depth / (number_of_depth_layers - 1) + image_location_offset\<close>:
  evenly spaced, from \<open>-volume_depth / 2 + image_location_offset\<close> to (with two layers or more)
  \<open>volume_depth / 2 + image_location_offset\<close>. For \<open>volume_depth \<ge> 0\<close> they are in
  non-decreasing order, and no sequence of operations on the instance changes them.
\<close>

theorem depth_schedule:
  "length (distances (init cfg)) = cfg_number_of_depth_layers cfg \<and>
   (\<forall>i < cfg_number_of_depth_layers cfg.
      distances (init cfg) ! i =
        - cfg_volume_depth cfg / 2
        + real i * (cfg_volume_depth cfg / real (cfg_number_of_depth_layers cfg - 1))
        + cfg_image_location_offset cfg) \<and>
   (0 < cfg_number_of_depth_layers cfg \<longrightarrow>
      hd (distances (init cfg)) = - cfg_volume_depth cfg / 2 + cfg_image_location_offset cfg) \<and>
   (2 \<le> cfg_number_of_depth_layers cfg \<longrightarrow>
      last (distances (init cfg)) = cfg_volume_depth cfg / 2 + cfg_image_location_offset cfg) \<and>
   (0 \<le> cfg_volume_depth cfg \<longrightarrow> sorted (distances (init cfg))) \<and>
   distances (run gen (init cfg) xs) = distances (init cfg)"
  using init_distances_length init_distances_nth init_distances_hd init_distances_last
    init_distances_sorted run_distances
  by blast

lemma three_layer_fields:
  "cfg_number_of_depth_layers three_layer_config = 3"
  "cfg_volume_depth three_layer_config = 2"
  "cfg_image_location_offset three_layer_config = 5"
  by (simp_all add: three_layer_config_def)

theorem depth_schedule_witness:
  "(2::nat) < cfg_number_of_depth_layers three_layer_config \<and>
   0 \<le> cfg_volume_depth three_layer_config \<and>
   length (distances (init three_layer_config)) = 3 \<and>
   hd (distances (init three_layer_config)) = 4 \<and>
   distances (init three_layer_config) ! 1 = 5 \<and>
   distances (init three_layer_config) ! 2 = 6 \<and>
   last (distances (init three_layer_config)) = 6 \<and>
   sorted (distances (init three_layer_config)) \<and>
   distances (run ones_generator (init three_layer_config)
     [Call unit_field 0 2, Set_aperture None (Some 1), Call unit_field 0 (- 1)]) =
     distances (init three_layer_config)"
  using depth_schedule[of three_layer_config ones_generator
      "[Call unit_field 0 2, Set_aperture None (Some 1), Call unit_field 0 (- 1)]"]
  by (simp add: three_layer_fields)

lemma rows_tmap [simp]: "rows (tmap f t) = rows t"
  and cols_tmap [simp]: "cols (tmap f t) = cols t"
  by (simp_all add: tmap_def)

lemma tmap_tabulate2: "tmap g (tabulate2 m n f) = tabulate2 m n (\<lambda>i j. g (f i j))"
  by (simp add: tmap_def tabulate2_def)

lemma tmap_ident: "tmap (\<lambda>x. x) t = t"
  by (simp add: tmap_def)

lemma default_aperture:
  "aperture (set_aperture p None None) =
     circular_binary_mask (fst (resolution p) * resolution_factor p * 2)
       (snd (resolution p) * resolution_factor p * 2)
       (max (fst (resolution p) * resolution_factor p) (snd (resolution p) * resolution_factor p))"
  by (simp add: set_aperture_def tmap_ident)

section \<open>The default aperture\<close>

text \<open>
  Claim C6. \<open>set_aperture\<close> without arguments stores the circular binary mask centred in
  a buffer of the padded shape \<open>(2 * H * scale, 2 * W * scale)\<close>. The radius it hands to
  the mask generator is \<open>max (H * scale) (W * scale)\<close>, so the diameter of the circle is the
  larger of the padded dimensions, \<open>max (2 * H * scale) (2 * W * scale)\<close>: an entry is 1
  exactly when the centre of its pixel is closer to the centre of the buffer than half of
  that diameter (on doubled coordinates: than the diameter), and 0 otherwise.
\<close>

theorem default_aperture_mask:
  "shape (aperture (set_aperture p None None)) =
     (2 * fst (resolution p) * resolution_factor p, 2 * snd (resolution p) * resolution_factor p) \<and>
   well_shaped (aperture (set_aperture p None None)) \<and>
   aperture (set_aperture p None None) =
     circular_binary_mask (2 * fst (resolution p) * resolution_factor p)
       (2 * snd (resolution p) * resolution_factor p)
       (max (fst (resolution p) * resolution_factor p) (snd (resolution p) * resolution_factor p)) \<and>
   (\<forall>i < 2 * fst (resolution p) * resolution_factor p.
    \<forall>j < 2 * snd (resolution p) * resolution_factor p.
      entry (aperture (set_aperture p None None)) i j =
        (if (2 * int i + 1 - int (2 * fst (resolution p) * resolution_factor p))\<^sup>2
            + (2 * int j + 1 - int (2 * snd (resolution p) * resolution_factor p))\<^sup>2
            < (int (max (2 * fst (resolution p) * resolution_factor p)
                        (2 * snd (resolution p) * resolution_factor p)))\<^sup>2
         then 1 else 0))"
proof -
  have a: "fst (resolution p) * resolution_factor p * 2 = 2 * fst (resolution p) * resolution_factor p"
    "snd (resolution p) * resolution_factor p * 2 = 2 * snd (resolution p) * resolution_factor p"
    by simp_all
  have d: "2 * int (max (fst (resolution p) * resolution_factor p)
                        (snd (resolution p) * resolution_factor p)) =
           int (max (2 * fst (resolution p) * resolution_factor p)
                    (2 * snd (resolution p) * resolution_factor p))"
    by (simp add: max_def)
  show ?thesis
    unfolding default_aperture a
    by (simp add: circular_binary_mask_def shape_def d del: of_nat_max of_nat_mult)
qed

lemma square_init_fields:
  "resolution (init square_config) = (2, 2)" "resolution_factor (init square_config) = 1"
  by (simp_all add: init_fields square_config_def small_config_def)

theorem default_aperture_mask_witness:
  "(0::nat) < 2 * fst (resolution (init square_config)) * resolution_factor (init square_config) \<and>
   (1::nat) < 2 * snd (resolution (init square_config)) * resolution_factor (init square_config) \<and>
   shape (aperture (set_aperture (init square_config) None None)) = (4, 4) \<and>
   aperture (set_aperture (init square_config) None None) = circular_binary_mask 4 4 2 \<and>
   entry (aperture (set_aperture (init square_config) None None)) 0 0 = 0 \<and>
   entry (aperture (set_aperture (init square_config) None None)) 0 1 = 1"
  using default_aperture_mask[of "init square_config"]
  by (simp add: square_init_fields circular_binary_mask_def shape_def)

lemma shape_zero_pad: "shape (zero_pad x) = (2 * rows x, 2 * cols x)"
  by (simp add: zero_pad_def shape_def)

lemma shape_fftshift: "shape (fftshift x) = shape x"
  by (simp add: fftshift_def shape_def)

lemma shape_ifftshift: "shape (ifftshift x) = shape x"
  by (simp add: ifftshift_def shape_def)

lemma shape_fft2: "fft2 x = Inr y \<Longrightarrow> shape y = shape x"
  by (auto simp add: fft2_def shape_def split: if_splits)

lemma shape_ifft2: "ifft2 x = Inr y \<Longrightarrow> shape y = shape x"
  by (auto simp add: ifft2_def shape_def split: if_splits)

lemma shape_crop_center: "shape (crop_center x) = (rows x div 2, cols x div 2)"
  by (simp add: crop_center_def shape_def)

lemma bdim_even: "bdim a (2 * n) = Some m \<Longrightarrow> m = 2 * n"
  by (auto simp add: bdim_def split: if_splits)

lemma shape_tmul_even:
  assumes "tmul x y = Inr z" "shape y = (2 * m, 2 * n)"
  shows "shape z = (2 * m, 2 * n)"
proof -
  have r: "rows y = 2 * m" "cols y = 2 * n" using assms(2) by (simp_all add: shape_def)
  show ?thesis
    using assms(1)
    by (auto simp add: tmul_def r shape_def split: option.splits dest: bdim_even)
qed

lemma shape_U1:
  assumes "U1 field = Inr u"
  shows "shape u = (2 * rows field, 2 * cols field)"
  using assms
  by (auto simp add: U1_def field_padded_def shape_fftshift shape_zero_pad
      split: sum.splits dest!: shape_fft2)

lemma shape_U2:
  assumes "U2 p field H = Inr u"
  shows "shape u = (2 * rows field, 2 * cols field)"
  using assms
  by (auto simp add: U2_def split: sum.splits dest: shape_U1 shape_tmul_even)

lemma shape_result_padded:
  assumes "result_padded p field H = Inr r"
  shows "shape r = (2 * rows field, 2 * cols field)"
  using assms
  by (auto simp add: result_padded_def shape_ifftshift
      split: sum.splits dest!: shape_ifft2 shape_U2)

lemma shape_propagate:
  assumes "propagate p field H = Inr r"
  shows "shape r = (rows field, cols field)"
proof -
  obtain rp where rp: "result_padded p field H = Inr rp" and r: "r = crop_center rp"
    using assms by (auto simp add: propagate_def split: sum.splits)
  have "rows rp = 2 * rows field" "cols rp = 2 * cols field"
    using shape_result_padded[OF rp] by (simp_all add: shape_def)
  then show ?thesis by (simp add: r shape_crop_center)
qed

lemma propagate_returns:
  assumes "0 < rows field" "0 < cols field"
    "shape H = (2 * rows field, 2 * cols field)"
    "shape (aperture p) = (2 * rows field, 2 * cols field)"
  shows "\<exists>r. propagate p field H = Inr r"
proof -
  have h: "rows H = 2 * rows field" "cols H = 2 * cols field"
    "rows (aperture p) = 2 * rows field" "cols (aperture p) = 2 * cols field"
    using assms(3,4) by (simp_all add: shape_def)
  obtain u1 where u1: "U1 field = Inr u1"
    using assms(1,2)
    by (simp add: U1_def field_padded_def fft2_def fftshift_def zero_pad_def)
  have s1: "rows u1 = 2 * rows field" "cols u1 = 2 * cols field"
    using shape_U1[OF u1] by (simp_all add: shape_def)
  obtain u2 where u2: "U2 p field H = Inr u2"
    by (simp add: U2_def u1 tmul_def bdim_def h s1)
  have s2: "rows u2 = 2 * rows field" "cols u2 = 2 * cols field"
    using shape_U2[OF u2] by (simp_all add: shape_def)
  obtain rp where "result_padded p field H = Inr rp"
    using assms(1,2) by (simp add: result_padded_def u2 ifft2_def ifftshift_def s2)
  then show ?thesis by (simp add: propagate_def)
qed

section \<open>Shapes in propagate\<close>

text \<open>
  Claim C3, as the code has it. For an input field of shape \<open>(h, w)\<close> every padded
  intermediate of \<open>propagate\<close> (the padded field, the spectrum \<open>U1\<close>, the product \<open>U2\<close> and
  the padded result) has shape \<open>(2 * h, 2 * w)\<close>, whatever the resolution factor of the
  instance, and a result that \<open>propagate\<close> returns has shape \<open>(h, w)\<close> and complex entries.
  It does return one when the field is not empty and kernel and aperture have the padded
  shape.
\<close>

theorem propagate_shapes:
  assumes "shape field = (h, w)"
  shows "shape (field_padded field) = (2 * h, 2 * w) \<and>
         (\<forall>u. U1 field = Inr u \<longrightarrow> shape u = (2 * h, 2 * w)) \<and>
         (\<forall>u. U2 p field H = Inr u \<longrightarrow> shape u = (2 * h, 2 * w)) \<and>
         (\<forall>r. result_padded p field H = Inr r \<longrightarrow> shape r = (2 * h, 2 * w)) \<and>
         (\<forall>r. propagate p field H = Inr r \<longrightarrow> shape r = (h, w)) \<and>
         (0 < h \<and> 0 < w \<and> shape H = (2 * h, 2 * w) \<and> shape (aperture p) = (2 * h, 2 * w) \<longrightarrow>
            (\<exists>r. propagate p field H = Inr r \<and> shape r = (h, w)))"
proof -
  have hw: "rows field = h" "cols field = w" using assms by (simp_all add: shape_def)
  have a: "shape (field_padded field) = (2 * h, 2 * w)"
    by (simp add: field_padded_def shape_zero_pad hw)
  have b: "\<forall>u. U1 field = Inr u \<longrightarrow> shape u = (2 * h, 2 * w)"
    using shape_U1[of field] by (simp add: hw)
  have c: "\<forall>u. U2 p field H = Inr u \<longrightarrow> shape u = (2 * h, 2 * w)"
    using shape_U2[of p field H] by (simp add: hw)
  have d: "\<forall>r. result_padded p field H = Inr r \<longrightarrow> shape r = (2 * h, 2 * w)"
    using shape_result_padded[of p field H] by (simp add: hw)
  have e: "\<forall>r. propagate p field H = Inr r \<longrightarrow> shape r = (h, w)"
    using shape_propagate[of p field H] by (simp add: hw)
  have f: "\<exists>r. propagate p field H = Inr r \<and> shape r = (h, w)"
    if ok: "0 < h \<and> 0 < w \<and> shape H = (2 * h, 2 * w) \<and> shape (aperture p) = (2 * h, 2 * w)"
  proof -
    obtain r where "propagate p field H = Inr r"
      using propagate_returns[of field H p] ok by (auto simp add: hw)
    then show ?thesis using e by blast
  qed
  show ?thesis using a b c d e f by blast
qed

lemma rows_smul [simp]: "rows (smul a x) = rows x"
  and cols_smul [simp]: "cols (smul a x) = cols x"
  by (simp_all add: smul_def)

lemma well_shaped_smul [simp]: "well_shaped (smul a x) = well_shaped x"
  by (simp add: smul_def tmap_def well_shaped_def)

lemma entry_smul:
  "well_shaped x \<Longrightarrow> i < rows x \<Longrightarrow> j < cols x \<Longrightarrow> entry (smul a x) i j = a * entry x i j"
  by (simp add: smul_def tmap_def entry_def well_shaped_def flat_index_less)

lemma smul_tabulate2: "smul a (tabulate2 m n f) = tabulate2 m n (\<lambda>i j. a * f i j)"
  by (simp add: smul_def tmap_tabulate2)

lemma smul_zero: "well_shaped r \<Longrightarrow> smul 0 r = zeros (rows r) (cols r)"
proof -
  assume "well_shaped r"
  then have "smul 0 r = smul 0 (tabulate2 (rows r) (cols r) (entry r))"
    by (simp add: tabulate2_entry)
  then show ?thesis by (simp add: smul_tabulate2 zeros_def)
qed

lemma zero_pad_smul:
  assumes "well_shaped x"
  shows "zero_pad (smul a x) = smul a (zero_pad x)"
  unfolding zero_pad_def smul_tabulate2 rows_smul cols_smul
proof (rule tabulate2_cong)
  fix i j
  show "(if rows x div 2 \<le> i \<and> i < rows x div 2 + rows x \<and>
            cols x div 2 \<le> j \<and> j < cols x div 2 + cols x
         then entry (smul a x) (i - rows x div 2) (j - cols x div 2) else 0) =
        a * (if rows x div 2 \<le> i \<and> i < rows x div 2 + rows x \<and>
                cols x div 2 \<le> j \<and> j < cols x div 2 + cols x
             then entry x (i - rows x div 2) (j - cols x div 2) else 0)"
  proof (cases "rows x div 2 \<le> i \<and> i < rows x div 2 + rows x \<and>
            cols x div 2 \<le> j \<and> j < cols x div 2 + cols x")
    case True
    then have "i - rows x div 2 < rows x" "j - cols x div 2 < cols x" by linarith+
    then show ?thesis using True by (simp add: entry_smul[OF assms])
  next
    case False
    show ?thesis by (simp only: if_not_P[OF False] mult_zero_right)
  qed
qed

lemma fftshift_smul:
  assumes "well_shaped x"
  shows "fftshift (smul a x) = smul a (fftshift x)"
  unfolding fftshift_def smul_tabulate2 rows_smul cols_smul
  by (rule tabulate2_cong) (simp add: entry_smul[OF assms])

lemma ifftshift_smul:
  assumes "well_shaped x"
  shows "ifftshift (smul a x) = smul a (ifftshift x)"
  unfolding ifftshift_def smul_tabulate2 rows_smul cols_smul
  by (rule tabulate2_cong) (simp add: entry_smul[OF assms])

lemma crop_center_smul:
  assumes "well_shaped x"
  shows "crop_center (smul a x) = smul a (crop_center x)"
  unfolding crop_center_def smul_tabulate2 rows_smul cols_smul
  by (rule tabulate2_cong) (simp add: entry_smul[OF assms])

lemma double_sum_smul:
  assumes "well_shaped x"
  shows "(\<Sum>i<rows x. \<Sum>j<cols x. entry (smul a x) i j * f i j) =
         a * (\<Sum>i<rows x. \<Sum>j<cols x. entry x i j * f i j)"
proof -
  have "(\<Sum>i<rows x. \<Sum>j<cols x. entry (smul a x) i j * f i j) =
        (\<Sum>i<rows x. \<Sum>j<cols x. a * (entry x i j * f i j))"
    by (intro sum.cong refl) (simp add: entry_smul[OF assms])
  also have "\<dots> = a * (\<Sum>i<rows x. \<Sum>j<cols x. entry x i j * f i j)"
    by (simp add: sum_distrib_left)
  finally show ?thesis .
qed

lemma fft2_smul:
  assumes "well_shaped x"
  shows "fft2 (smul a x) = map_sum id (smul a) (fft2 x)"
  by (simp add: fft2_def smul_tabulate2 double_sum_smul[OF assms])

lemma ifft2_smul:
  assumes "well_shaped x"
  shows "ifft2 (smul a x) = map_sum id (smul a) (ifft2 x)"
  by (simp add: ifft2_def smul_tabulate2 double_sum_smul[OF assms])

lemma bentry_smul:
  assumes "well_shaped y" "bdim r (rows y) = Some m" "bdim c (cols y) = Some n" "i < m" "j < n"
  shows "bentry (smul a y) i j = a * bentry y i j"
proof -
  have "(if rows y = 1 then 0 else i) < rows y"
    using assms(2,4) by (auto simp add: bdim_def split: if_splits)
  moreover have "(if cols y = 1 then 0 else j) < cols y"
    using assms(3,5) by (auto simp add: bdim_def split: if_splits)
  ultimately show ?thesis
    unfolding bentry_def rows_smul cols_smul by (rule entry_smul[OF assms(1)])
qed

lemma tmul_smul:
  assumes "well_shaped y"
  shows "tmul x (smul a y) = map_sum id (smul a) (tmul x y)"
proof (cases "bdim (rows x) (rows y)")
  case None
  then show ?thesis by (simp add: tmul_def)
next
  case m: (Some m)
  show ?thesis
  proof (cases "bdim (cols x) (cols y)")
    case None
    then show ?thesis by (simp add: tmul_def m)
  next
    case n: (Some n)
    have "tabulate2 m n (\<lambda>i j. bentry x i j * bentry (smul a y) i j) =
          tabulate2 m n (\<lambda>i j. a * (bentry x i j * bentry y i j))"
      by (rule tabulate2_cong) (simp add: bentry_smul[OF assms m n])
    then show ?thesis by (simp add: tmul_def m n smul_tabulate2)
  qed
qed

lemma well_shaped_fft2: "fft2 x = Inr y \<Longrightarrow> well_shaped y"
  by (auto simp add: fft2_def split: if_splits)

lemma well_shaped_ifft2: "ifft2 x = Inr y \<Longrightarrow> well_shaped y"
  by (auto simp add: ifft2_def split: if_splits)

lemma well_shaped_tmul: "tmul x y = Inr z \<Longrightarrow> well_shaped z"
  by (auto simp add: tmul_def split: option.splits)

lemma well_shaped_stages [simp]:
  "well_shaped (zero_pad x)" "well_shaped (fftshift y)" "well_shaped (ifftshift y)"
  "well_shaped (crop_center y)"
  by (simp_all add: zero_pad_def fftshift_def ifftshift_def crop_center_def)

lemma U1_smul:
  assumes "well_shaped field"
  shows "U1 (smul a field) = map_sum id (smul a) (U1 field)"
proof -
  have "fft2 (fftshift (field_padded (smul a field))) =
        map_sum id (smul a) (fft2 (fftshift (field_padded field)))"
    by (simp add: field_padded_def zero_pad_smul[OF assms] fftshift_smul fft2_smul)
  then show ?thesis
    by (cases "fft2 (fftshift (field_padded field))")
      (simp_all add: U1_def fftshift_smul well_shaped_fft2)
qed

lemma well_shaped_U1: "U1 field = Inr u \<Longrightarrow> well_shaped u"
  by (auto simp add: U1_def split: sum.splits)

lemma U2_smul:
  assumes "well_shaped field"
  shows "U2 p (smul a field) H = map_sum id (smul a) (U2 p field H)"
proof (cases "U1 field")
  case (Inl e)
  then show ?thesis by (simp add: U2_def U1_smul[OF assms])
next
  case (Inr u1)
  then show ?thesis
    by (cases "tmul H (tmap complex_of_real (aperture p))")
      (simp_all add: U2_def U1_smul[OF assms] tmul_smul well_shaped_U1)
qed

lemma well_shaped_U2: "U2 p field H = Inr u \<Longrightarrow> well_shaped u"
  by (auto simp add: U2_def split: sum.splits dest: well_shaped_tmul)

lemma result_padded_smul:
  assumes "well_shaped field"
  shows "result_padded p (smul a field) H = map_sum id (smul a) (result_padded p field H)"
proof (cases "U2 p field H")
  case (Inl e)
  then show ?thesis by (simp add: result_padded_def U2_smul[OF assms])
next
  case (Inr u2)
  have w: "well_shaped u2" using Inr by (rule well_shaped_U2)
  have "ifft2 (ifftshift (smul a u2)) = map_sum id (smul a) (ifft2 (ifftshift u2))"
    by (simp add: ifftshift_smul[OF w] ifft2_smul)
  then show ?thesis
    by (cases "ifft2 (ifftshift u2)")
      (simp_all add: result_padded_def U2_smul[OF assms] Inr ifftshift_smul well_shaped_ifft2)
qed

lemma well_shaped_result_padded: "result_padded p field H = Inr r \<Longrightarrow> well_shaped r"
  by (auto simp add: result_padded_def split: sum.splits)

lemma propagate_smul:
  assumes "well_shaped field"
  shows "propagate p (smul a field) H = map_sum id (smul a) (propagate p field H)"
  by (cases "result_padded p field H")
    (simp_all add: propagate_def result_padded_smul[OF assms] crop_center_smul
      well_shaped_result_padded)

lemma well_shaped_propagate: "propagate p field H = Inr r \<Longrightarrow> well_shaped r"
  by (auto simp add: propagate_def split: sum.splits)

lemma propagate_zeros:
  assumes "propagate p (zeros h w) H = Inr r"
  shows "r = zeros h w"
proof -
  have z: "(zeros h w :: complex tensor) = smul 0 (zeros h w)"
    by (simp add: zeros_def smul_tabulate2)
  have "propagate p (smul 0 (zeros h w)) H = map_sum id (smul 0) (propagate p (zeros h w) H)"
    by (rule propagate_smul) (simp add: zeros_def)
  then have "r = smul 0 r" using assms z by simp
  moreover have "well_shaped r" using assms by (rule well_shaped_propagate)
  moreover have "rows r = h" "cols r = w"
    using shape_propagate[OF assms] by (simp_all add: shape_def zeros_def)
  ultimately show ?thesis by (simp add: smul_zero)
qed

section \<open>Linearity of propagate\<close>

text \<open>
  Claim C4. For a fixed kernel and aperture, \<open>propagate\<close> of \<open>a * field\<close> is \<open>a\<close> times
  \<open>propagate\<close> of \<open>field\<close> (and fails where that fails), for every complex \<open>a\<close> and every
  field, over exact complex arithmetic; an all-zero field gives an all-zero result.
\<close>

theorem propagate_linear:
  assumes "well_shaped field"
  shows "propagate p (smul a field) H = map_sum id (smul a) (propagate p field H) \<and>
         (\<forall>r. propagate p field H = Inr r \<longrightarrow> propagate p (smul a field) H = Inr (smul a r)) \<and>
         (\<forall>r. propagate p (zeros h w) H = Inr r \<longrightarrow> r = zeros h w)"
  using propagate_smul[OF assms, of p a H] propagate_zeros[of p h w H] by simp

lemma init_default_aperture_shape:
  assumes "cfg_aperture cfg = None"
  shows "shape (aperture (init cfg)) =
           (fst (cfg_resolution cfg) * cfg_resolution_factor cfg * 2,
            snd (cfg_resolution cfg) * cfg_resolution_factor cfg * 2)"
  using assms
  by (simp add: init_def Let_def set_aperture_def init_phase_scale_def init_channel_power_def
      init_kernels_def init_distances_def circular_binary_mask_def shape_def
      split: option.splits)

lemma small_aperture_shape: "shape (aperture (init small_config)) = (2, 2)"
  using init_default_aperture_shape[of small_config] by (simp add: small_config_def)

lemma scaled_aperture_shape: "shape (aperture (init scaled_config)) = (4, 4)"
  using init_default_aperture_shape[of scaled_config]
  by (simp add: scaled_config_def small_config_def)

lemma unit_field_shape: "shape unit_field = (1, 1)" "well_shaped unit_field"
  by (simp_all add: unit_field_def shape_def)

lemma zeros_shape: "shape (zeros m n) = (m, n)"
  by (simp add: zeros_def shape_def)

lemma zeros_dims: "rows (zeros m n) = m" "cols (zeros m n) = n"
  by (simp_all add: zeros_def)

theorem propagate_shapes_witness:
  "shape unit_field = (1, 1) \<and> (0::nat) < 1 \<and>
   shape (zeros 2 2 :: complex tensor) = (2 * 1, 2 * 1) \<and>
   shape (aperture (init small_config)) = (2 * 1, 2 * 1) \<and>
   shape (field_padded unit_field) = (2 * 1, 2 * 1) \<and>
   (\<exists>r. propagate (init small_config) unit_field (zeros 2 2) = Inr r \<and> shape r = (1, 1))"
  using propagate_shapes[OF unit_field_shape(1), of "init small_config" "zeros 2 2"]
    unit_field_shape(1)
  by (simp add: zeros_shape small_aperture_shape)

lemma scaled_init_factor: "resolution_factor (init scaled_config) = 2"
  "resolution (init scaled_config) = (1, 1)"
  by (simp_all add: init_fields scaled_config_def small_config_def)

lemma scaled_propagate_fails:
  "propagate (init scaled_config) unit_field (zeros 4 4) = Inl RuntimeError"
proof -
  obtain u1 where u1: "U1 unit_field = Inr u1"
    by (simp add: U1_def field_padded_def fft2_def fftshift_def zero_pad_def unit_field_def)
  have s1: "rows u1 = 2" "cols u1 = 2"
    using shape_U1[OF u1] unit_field_shape(1) by (simp_all add: shape_def)
  have a: "rows (aperture (init scaled_config)) = 4" "cols (aperture (init scaled_config)) = 4"
    using scaled_aperture_shape by (simp_all add: shape_def)
  have "U2 (init scaled_config) unit_field (zeros 4 4) = Inl RuntimeError"
    by (simp add: U2_def u1 tmul_def bdim_def a s1 zeros_dims)
  then show ?thesis by (simp add: propagate_def result_padded_def)
qed

text \<open>
  With resolution \<open>(1, 1)\<close> and resolution factor 2, a field of shape \<open>(2, 2)\<close> is padded
  to \<open>(4, 4)\<close>, not to \<open>(8, 8)\<close>; and a field of shape \<open>(1, 1)\<close> is padded to \<open>(2, 2)\<close>,
  which the aperture of shape \<open>(4, 4)\<close> does not fit, so that \<open>propagate\<close> raises instead
  of returning a field.
\<close>

theorem padded_shape_counterexample:
  "resolution (init scaled_config) = (1, 1) \<and> resolution_factor (init scaled_config) = 2 \<and>
   shape (zeros 2 2 :: complex tensor) = (2, 2) \<and>
   shape (field_padded (zeros 2 2)) = (4, 4) \<and>
   shape (field_padded (zeros 2 2)) \<noteq>
     (2 * 2 * resolution_factor (init scaled_config),
      2 * 2 * resolution_factor (init scaled_config)) \<and>
   shape unit_field = (1, 1) \<and>
   propagate (init scaled_config) unit_field (zeros 4 4) = Inl RuntimeError"
  by (simp add: scaled_init_factor zeros_shape field_padded_def shape_zero_pad
      unit_field_shape scaled_propagate_fails zeros_dims)

theorem propagate_linear_witness:
  "well_shaped unit_field \<and>
   propagate (init small_config) (smul \<i> unit_field) (zeros 2 2) =
     map_sum id (smul \<i>) (propagate (init small_config) unit_field (zeros 2 2)) \<and>
   (\<exists>r. propagate (init small_config) unit_field (zeros 2 2) = Inr r \<and>
        propagate (init small_config) (smul \<i> unit_field) (zeros 2 2) = Inr (smul \<i> r)) \<and>
   propagate (init small_config) (zeros 1 1) (zeros 2 2) = Inr (zeros 1 1)"
proof -
  obtain r where r: "propagate (init small_config) unit_field (zeros 2 2) = Inr r"
    using propagate_returns[of unit_field "zeros 2 2" "init small_config"]
    by (auto simp add: unit_field_def zeros_shape small_aperture_shape)
  obtain z where z: "propagate (init small_config) (zeros 1 1) (zeros 2 2) = Inr z"
    using propagate_returns[of "zeros 1 1" "zeros 2 2" "init small_config"]
    by (auto simp add: zeros_shape small_aperture_shape zeros_dims)
  show ?thesis
    using propagate_linear[OF unit_field_shape(2), of "init small_config" \<i> "zeros 2 2" 1 1]
      unit_field_shape(2) r z
    by auto
qed

end
